theory Spec2Isabelle
  imports Main "HOL-Library.Word" "HOL-Library.AList" "HOL-Library.Sublist"
begin

unbundle bit_operations_syntax

section \<open>Python values and exceptions\<close>

text \<open>
  Values of data points and of JSON payloads are JSON values; a JSON object keeps its
  members in order, as a Python \<open>dict\<close> does.
\<close>

datatype json =
    JStr string
  | JInt int
  | JBool bool
  | JNull
  | JList "json list"
  | JDict "(string \<times> json) list"

text \<open>
  Exceptions of the Python source are values: a function that can raise returns
  \<open>exn + 'a\<close>, with \<open>Inl\<close> the exception. \<open>ValueError\<close> carries its message, since
  the source tells its failures apart by message only, and \<open>KeyError\<close> the missing key.
  \<open>ConnectionError\<close> stands for that class and its subclasses (connection refused,
  reset, aborted, broken pipe); \<open>OSError\<close>, with its \<open>errno\<close>, for an operating-system
  error outside that class, such as 113, no route to host.
\<close>

datatype exn =
    ValueError string
  | KeyError json
  | TypeError
  | ZeroDivisionError
  | OverflowError
  | NotImplementedError
  | StructError
  | UnicodeDecodeError
  | ConnectionError
  | OSError int
  | OtherException

section \<open>Unit scaling (device.py, \<open>scale_value\<close>)\<close>

datatype ValueRange = ValueRange (min_v: int) (max_v: int)

text \<open>
  \<open>scale_value\<close> of device.py. Its last two lines compute in double precision
  (\<open>factor = (range2.max - range2.min) / (1.0 * (range1.max - range1.min))\<close>, then
  \<open>int(range2.max - factor * (range1.max - value1))\<close>); that computation, with the
  exceptions it can raise, is the parameter \<open>interp\<close>. The three tests before it are
  on integers and are modelled as written, in the source's order.
\<close>

definition scale_value ::
  "(int \<Rightarrow> ValueRange \<Rightarrow> ValueRange \<Rightarrow> exn + int) \<Rightarrow> int \<Rightarrow> ValueRange \<Rightarrow> ValueRange \<Rightarrow> exn + int"
where
  "scale_value interp value1 range1 range2 =
     (if range1 = range2 then Inr value1
      else if value1 = min_v range1 then Inr (min_v range2)
      else if value1 = max_v range1 then Inr (max_v range2)
      else interp value1 range1 range2)"

section \<open>Dictionaries\<close>

text \<open>
  A Python \<open>dict\<close> is an association list in insertion order: \<open>d[k] = v\<close> is
  \<open>AList.update k v d\<close> (an existing key keeps its place, a new key goes last),
  \<open>k in d\<close> is \<open>k \<in> fst ` set d\<close> and \<open>d[k]\<close> is \<open>map_of d k\<close>, a \<open>KeyError\<close> when
  that is \<open>None\<close>.
\<close>

type_synonym 'v dict = "(string \<times> 'v) list"

text \<open>\<open>d.update(other)\<close>: every item of \<open>other\<close> is stored into \<open>d\<close>, in order.\<close>

definition dict_update :: "'v dict \<Rightarrow> 'v dict \<Rightarrow> 'v dict" where
  "dict_update d other = fold (\<lambda>(k, v). AList.update k v) other d"

text \<open>
  The comprehension \<open>{m[k]: src[k] for k in src}\<close> of \<open>set_state\<close> and \<open>fetch_state\<close>:
  it walks \<open>src\<close> in order and raises \<open>KeyError\<close> at the first key that \<open>m\<close> lacks.
\<close>

fun translate_keys :: "string dict \<Rightarrow> 'v dict \<Rightarrow> 'v dict \<Rightarrow> exn + 'v dict" where
  "translate_keys m [] acc = Inr acc"
| "translate_keys m ((k, v) # rest) acc =
     (case map_of m k of
        None \<Rightarrow> Inl (KeyError (JStr k))
      | Some k' \<Rightarrow> translate_keys m rest (AList.update k' v acc))"

section \<open>Device model (device.py)\<close>

definition BRIGHT_VALUE :: string where "BRIGHT_VALUE = ''bright_value''"
definition BRIGHT_VALUE_V2 :: string where "BRIGHT_VALUE_V2 = ''bright_value_v2''"
definition TEMP_VALUE :: string where "TEMP_VALUE = ''temp_value''"
definition TEMP_VALUE_V2 :: string where "TEMP_VALUE_V2 = ''temp_value_v2''"

definition BRIGHTNESS_CODES :: "string set" where
  "BRIGHTNESS_CODES = {BRIGHT_VALUE, BRIGHT_VALUE_V2}"

definition COLOR_TEMP_CODES :: "string set" where
  "COLOR_TEMP_CODES = {TEMP_VALUE, TEMP_VALUE_V2}"

definition RANGE_255 :: ValueRange where
  "RANGE_255 = ValueRange 0 255"

text \<open>
  The two class-level tables \<open>_map_from_tuya\<close> and \<open>_map_to_tuya\<close>, reduced to the ranges
  that the brightness and colour-temperature accessors read. \<open>build_map\<close> fills the
  first from its arguments and the second with the protocol's own ranges.
\<close>

record TuyaMap =
  range_brightness :: ValueRange
  range_color_temperature :: ValueRange

definition build_map :: "ValueRange \<Rightarrow> ValueRange \<Rightarrow> TuyaMap \<times> TuyaMap" where
  "build_map rb rct =
     (\<lparr>range_brightness = rb, range_color_temperature = rct\<rparr>,
      \<lparr>range_brightness = RANGE_255, range_color_temperature = RANGE_255\<rparr>)"

text \<open>
  \<open>DeviceData\<close> with the fields the modelled methods read or write; every key of the
  typed dictionary is present, the optional ones possibly \<open>None\<close>. Field names that
  clash with another constant carry a prime.
\<close>

record DeviceData =
  id' :: string
  local_key :: string
  attributes :: "string list"
  ip' :: "string option"
  version' :: string
  code_to_name :: "string dict option"
  name_to_code :: "string dict option"

record TuyaDevice =
  data :: DeviceData
  state :: "json dict option"
  failed_connect :: int
  attributes_set :: "string set"

text \<open>\<open>TuyaDevice.__init__\<close>: no state yet, no failure counted, the attribute codes as a set.\<close>

definition TuyaDevice_init :: "DeviceData \<Rightarrow> TuyaDevice" where
  "TuyaDevice_init device_data =
     \<lparr>data = device_data, state = None, failed_connect = 0,
      attributes_set = set (attributes device_data)\<rparr>"

definition assumed_state :: "TuyaDevice \<Rightarrow> bool" where
  "assumed_state self = (failed_connect self > 3)"

text \<open>
  Capability-code resolution: \<open>code = CODES & attributes if attributes else None\<close>, then
  \<open>code.pop() if code else None\<close>. \<open>set.pop\<close> removes an arbitrary element, so the
  resolution is the set of the results it can have: \<open>None\<close> alone when the intersection
  is empty, otherwise every element of the intersection.
\<close>

definition resolve_code :: "string set \<Rightarrow> string set \<Rightarrow> string option set" where
  "resolve_code codes attrs =
     (let code = (if attrs \<noteq> {} then codes \<inter> attrs else {})
      in if code \<noteq> {} then Some ` code else {None})"

definition brightness_code :: "TuyaDevice \<Rightarrow> string option set" where
  "brightness_code self = resolve_code BRIGHTNESS_CODES (attributes_set self)"

definition color_temp_code :: "TuyaDevice \<Rightarrow> string option set" where
  "color_temp_code self = resolve_code COLOR_TEMP_CODES (attributes_set self)"

text \<open>
  The test \<open>code and state and code in state\<close>: a code that is not \<open>None\<close> and not the
  empty string, a state that is not \<open>None\<close> and not the empty dictionary, and the code
  among its keys. It yields the value stored under the code.
\<close>

definition lookup_state :: "string option \<Rightarrow> json dict option \<Rightarrow> json option" where
  "lookup_state code st =
     (case code of
        None \<Rightarrow> None
      | Some c \<Rightarrow>
          (if c = [] then None
           else case st of
                  None \<Rightarrow> None
                | Some d \<Rightarrow> (if d = [] then None else map_of d c)))"

text \<open>
  \<open>scale_value\<close> applied to a stored value, which is whatever JSON value the device
  reported. An integer is scaled; a Boolean is the integer 0 or 1, as in Python. For a
  value of another type the lines of \<open>scale_value\<close> run as follows. With equal ranges
  the result is \<open>int(value1)\<close>: on a string Python's parser of integer literals, the
  parameter \<open>parse_int\<close> (\<open>100\<close> for \<open>'100'\<close>, a \<open>ValueError\<close> for \<open>'abc'\<close>), and a
  \<open>TypeError\<close> on \<open>None\<close>, a list or a dictionary. With different ranges the two
  comparisons with the ends of \<open>range1\<close> are false, the division that computes
  \<open>factor\<close> raises \<open>ZeroDivisionError\<close> when the ends of \<open>range1\<close> are equal, and
  otherwise \<open>range1.max - value1\<close> raises \<open>TypeError\<close>.
\<close>

definition scale_stored ::
  "(string \<Rightarrow> exn + int) \<Rightarrow> (int \<Rightarrow> ValueRange \<Rightarrow> ValueRange \<Rightarrow> exn + int) \<Rightarrow> json
     \<Rightarrow> ValueRange \<Rightarrow> ValueRange \<Rightarrow> exn + int"
where
  "scale_stored parse_int interp v range1 range2 =
     (case v of
        JInt n \<Rightarrow> scale_value interp n range1 range2
      | JBool b \<Rightarrow> scale_value interp (if b then 1 else 0) range1 range2
      | JStr s \<Rightarrow>
          (if range1 = range2 then parse_int s
           else if max_v range1 = min_v range1 then Inl ZeroDivisionError
           else Inl TypeError)
      | _ \<Rightarrow>
          (if range1 = range2 then Inl TypeError
           else if max_v range1 = min_v range1 then Inl ZeroDivisionError
           else Inl TypeError))"

text \<open>
  The bodies of the \<open>brightness\<close> and \<open>color_temp\<close> properties and of their setters,
  for a resolved code. The getters return \<open>Optional[int]\<close>, the setters a one-entry
  dictionary or \<open>None\<close>.
\<close>

definition brightness_at ::
  "(string \<Rightarrow> exn + int) \<Rightarrow> (int \<Rightarrow> ValueRange \<Rightarrow> ValueRange \<Rightarrow> exn + int) \<Rightarrow> TuyaMap \<Rightarrow> TuyaMap
     \<Rightarrow> TuyaDevice \<Rightarrow> string option \<Rightarrow> exn + int option"
where
  "brightness_at parse_int interp map_from_tuya map_to_tuya self code =
     (let range = range_brightness map_from_tuya;
          t_range = range_brightness map_to_tuya
      in case lookup_state code (state self) of
           None \<Rightarrow> Inr None
         | Some v \<Rightarrow>
             (if code = Some BRIGHT_VALUE
              then map_sum id Some (scale_stored parse_int interp v t_range range)
              else Inr None))"

definition set_brightness_at ::
  "(int \<Rightarrow> ValueRange \<Rightarrow> ValueRange \<Rightarrow> exn + int) \<Rightarrow> TuyaMap \<Rightarrow> TuyaMap
     \<Rightarrow> string option \<Rightarrow> int \<Rightarrow> exn + json dict option"
where
  "set_brightness_at interp map_from_tuya map_to_tuya code value =
     (let range = range_brightness map_from_tuya;
          t_range = range_brightness map_to_tuya
      in if code \<noteq> None \<and> code \<noteq> Some [] \<and> code = Some BRIGHT_VALUE
         then map_sum id (\<lambda>v. Some [(BRIGHT_VALUE, JInt (max 25 v))])
                (scale_value interp value range t_range)
         else Inr None)"

definition color_temp_at ::
  "(string \<Rightarrow> exn + int) \<Rightarrow> (int \<Rightarrow> ValueRange \<Rightarrow> ValueRange \<Rightarrow> exn + int) \<Rightarrow> TuyaMap \<Rightarrow> TuyaMap
     \<Rightarrow> TuyaDevice \<Rightarrow> string option \<Rightarrow> exn + int option"
where
  "color_temp_at parse_int interp map_from_tuya map_to_tuya self code =
     (let range = range_color_temperature map_from_tuya;
          t_range = range_color_temperature map_to_tuya
      in case lookup_state code (state self) of
           None \<Rightarrow> Inr None
         | Some v \<Rightarrow>
             (if code = Some TEMP_VALUE
              then map_sum id Some (scale_stored parse_int interp v t_range range)
              else Inr None))"

definition set_color_temp_at ::
  "(int \<Rightarrow> ValueRange \<Rightarrow> ValueRange \<Rightarrow> exn + int) \<Rightarrow> TuyaMap \<Rightarrow> TuyaMap
     \<Rightarrow> string option \<Rightarrow> int \<Rightarrow> exn + json dict option"
where
  "set_color_temp_at interp map_from_tuya map_to_tuya code value =
     (let range = range_color_temperature map_from_tuya;
          t_range = range_color_temperature map_to_tuya
      in if code \<noteq> None \<and> code \<noteq> Some [] \<and> code = Some TEMP_VALUE
         then map_sum id (\<lambda>v. Some [(TEMP_VALUE, JInt v)])
                (scale_value interp value range t_range)
         else Inr None)"

text \<open>The accessors themselves: the body at every code the resolution can return.\<close>

definition brightness ::
  "(string \<Rightarrow> exn + int) \<Rightarrow> (int \<Rightarrow> ValueRange \<Rightarrow> ValueRange \<Rightarrow> exn + int) \<Rightarrow> TuyaMap \<Rightarrow> TuyaMap
     \<Rightarrow> TuyaDevice \<Rightarrow> (exn + int option) set"
where
  "brightness parse_int interp mf mt self = brightness_at parse_int interp mf mt self ` brightness_code self"

definition set_brightness ::
  "(int \<Rightarrow> ValueRange \<Rightarrow> ValueRange \<Rightarrow> exn + int) \<Rightarrow> TuyaMap \<Rightarrow> TuyaMap \<Rightarrow> TuyaDevice
     \<Rightarrow> int \<Rightarrow> (exn + json dict option) set"
where
  "set_brightness interp mf mt self value =
     (\<lambda>code. set_brightness_at interp mf mt code value) ` brightness_code self"

definition color_temp ::
  "(string \<Rightarrow> exn + int) \<Rightarrow> (int \<Rightarrow> ValueRange \<Rightarrow> ValueRange \<Rightarrow> exn + int) \<Rightarrow> TuyaMap \<Rightarrow> TuyaMap
     \<Rightarrow> TuyaDevice \<Rightarrow> (exn + int option) set"
where
  "color_temp parse_int interp mf mt self = color_temp_at parse_int interp mf mt self ` color_temp_code self"

definition set_color_temp ::
  "(int \<Rightarrow> ValueRange \<Rightarrow> ValueRange \<Rightarrow> exn + int) \<Rightarrow> TuyaMap \<Rightarrow> TuyaMap \<Rightarrow> TuyaDevice
     \<Rightarrow> int \<Rightarrow> (exn + json dict option) set"
where
  "set_color_temp interp mf mt self value =
     (\<lambda>code. set_color_temp_at interp mf mt code value) ` color_temp_code self"

subsection \<open>Fetching and setting the state\<close>

text \<open>
  The exchanges with the device (\<open>status\<close> and \<open>set_status\<close> of tuya_platform.py) are
  network effects; what they return or raise is an input of the model. Exceptions are
  those below \<open>Exception\<close>; \<open>ConnectionError\<close> stands for that class and its subclasses.
  A method that mutates the device returns the device with what it returned or raised.
\<close>

text \<open>
  \<open>_create_code_name_maps\<close>: the codes of the first status in the order received,
  zipped with the registered attributes in their order.
\<close>

definition create_code_name_maps :: "TuyaDevice \<Rightarrow> json dict \<Rightarrow> string dict \<times> TuyaDevice" where
  "create_code_name_maps self status =
     (let codes = map fst status;
          attrs = attributes (data self);
          c2n = dict_update [] (zip codes attrs);
          n2c = dict_update [] (map (\<lambda>(code, name). (name, code)) c2n)
      in (c2n, self\<lparr>data := (data self)\<lparr>code_to_name := Some c2n, name_to_code := Some n2c\<rparr>\<rparr>))"

definition no_ip :: "TuyaDevice \<Rightarrow> bool" where
  "no_ip self = (ip' (data self) = None \<or> ip' (data self) = Some [])"

definition fetch_state :: "TuyaDevice \<Rightarrow> exn + json dict \<Rightarrow> exn option \<times> TuyaDevice" where
  "fetch_state self outcome =
     (if no_ip self then (Some (ValueError ''No IP address''), self)
      else case outcome of
             Inl e \<Rightarrow>
               (if e = ConnectionError
                then (None, self\<lparr>failed_connect := failed_connect self + 1\<rparr>)
                else (None, self))
           | Inr status \<Rightarrow>
               (let (m, self1) =
                      (case code_to_name (data self) of
                         None \<Rightarrow> create_code_name_maps self status
                       | Some m0 \<Rightarrow>
                           (if m0 \<noteq> [] then (m0, self)
                            else create_code_name_maps self status))
                in case translate_keys m status [] of
                     Inl e \<Rightarrow> (Some e, self1)
                   | Inr st \<Rightarrow> (None, self1\<lparr>state := Some st, failed_connect := 0\<rparr>)))"

text \<open>
  Fetches made one after the other, as the periodic update makes them; what a fetch
  raises past its caller is dropped there.
\<close>

fun fetch_all :: "TuyaDevice \<Rightarrow> (exn + json dict) list \<Rightarrow> TuyaDevice" where
  "fetch_all self [] = self"
| "fetch_all self (outcome # rest) = fetch_all (snd (fetch_state self outcome)) rest"

definition max_attempt :: nat where
  "max_attempt = 2"

text \<open>
  The retry loop of \<open>set_state\<close>. \<open>set_status n status\<close> is the outcome of the exchange
  number \<open>n\<close> (from 0) sending \<open>status\<close>. The loop returns its Boolean, the device, and
  the number of exchanges it made. \<open>merge_written\<close> is the success branch:
  \<open>state = self._state\<close>, then \<open>state.update(value)\<close> if \<open>state\<close> is neither \<open>None\<close> nor
  empty.
\<close>

definition merge_written :: "TuyaDevice \<Rightarrow> json dict \<Rightarrow> TuyaDevice" where
  "merge_written self value =
     (case state self of
        None \<Rightarrow> self
      | Some st \<Rightarrow> (if st \<noteq> [] then self\<lparr>state := Some (dict_update st value)\<rparr> else self))"

function set_state_loop ::
  "(nat \<Rightarrow> json dict \<Rightarrow> exn + unit) \<Rightarrow> json dict \<Rightarrow> json dict \<Rightarrow> nat \<Rightarrow> TuyaDevice
     \<Rightarrow> bool \<times> TuyaDevice \<times> nat"
where
  "set_state_loop set_status status value attempt self =
     (if attempt < max_attempt then
        (case set_status attempt status of
           Inr _ \<Rightarrow> (True, merge_written self value, attempt + 1)
         | Inl e \<Rightarrow>
             (if e = ConnectionError
              then set_state_loop set_status status value (attempt + 1) self
              else (False, self, attempt + 1)))
      else (False, self, attempt))"
  by pat_completeness auto
termination
  by (relation "measure (\<lambda>(set_status, status, value, attempt, self). max_attempt - attempt)") auto

declare set_state_loop.simps [simp del]

definition NOT_READY :: exn where
  "NOT_READY = ValueError ''No DPS codes found yet.Fetch state before setting it.''"

definition set_state ::
  "TuyaDevice \<Rightarrow> json dict \<Rightarrow> (nat \<Rightarrow> json dict \<Rightarrow> exn + unit) \<Rightarrow> (exn + bool) \<times> TuyaDevice \<times> nat"
where
  "set_state self value set_status =
     (if no_ip self then (Inl (ValueError ''No IP address''), self, 0)
      else case name_to_code (data self) of
             None \<Rightarrow> (Inl NOT_READY, self, 0)
           | Some m \<Rightarrow>
               (if m = [] then (Inl NOT_READY, self, 0)
                else case translate_keys m value [] of
                       Inl e \<Rightarrow> (Inl e, self, 0)
                     | Inr status \<Rightarrow>
                         (case set_state_loop set_status status value 0 self of
                            (ok, self', n) \<Rightarrow> (Inr ok, self', n))))"

section \<open>Discovery listener (device_scanner.py)\<close>

type_synonym byte = "8 word"
type_synonym bytes = "byte list"

datatype ScanResult =
  ScanResult (ip: string) (gwId: string) (active: int) (ability: int) (mode: int)
    (encrypt: bool) (productKey: string) (version: string)

text \<open>
  A registered callback is what it does with a result: return (\<open>None\<close>) or raise. What
  else it does is its own business; the scanner's field \<open>calls\<close> logs, in order, which
  callback (by its registry key) was called with which result.
\<close>

type_synonym DeviceFoundCallback = "ScanResult \<Rightarrow> exn option"

record DeviceScanner =
  seen :: "ScanResult set"
  on_device_found :: "DeviceFoundCallback dict"
  calls :: "(string \<times> ScanResult) list"

text \<open>
  The loop \<open>for callback in self.on_device_found.values(): callback(data)\<close>: an
  exception of a callback leaves the loop.
\<close>

fun broadcast ::
  "DeviceFoundCallback dict \<Rightarrow> ScanResult \<Rightarrow> (string \<times> ScanResult) list
     \<Rightarrow> exn option \<times> (string \<times> ScanResult) list"
where
  "broadcast [] d log = (None, log)"
| "broadcast ((key, callback) # rest) d log =
     (case callback d of
        Some e \<Rightarrow> (Some e, log @ [(key, d)])
      | None \<Rightarrow> broadcast rest d (log @ [(key, d)]))"

definition on_device_found_wrapper :: "DeviceScanner \<Rightarrow> ScanResult \<Rightarrow> exn option \<times> DeviceScanner" where
  "on_device_found_wrapper self d =
     (if d \<notin> seen self then
        (let self1 = self\<lparr>seen := insert d (seen self)\<rparr>;
             (r, log) = broadcast (on_device_found self1) d (calls self1)
         in (r, self1\<lparr>calls := log\<rparr>))
      else (None, self))"

text \<open>
  \<open>datagram_received\<close> of the presence protocols. \<open>parse\<close> stands for \<open>self.decode\<close>
  (UTF-8 for generation 3.1, AES with the discovery key for 3.3), \<open>json.loads\<close> and
  \<open>ScanResult(**json_data)\<close>, each of which can raise; the slice \<open>data[20:-8]\<close> is
  written out. The exception returned is the one that reaches the caller, the socket
  read loop; the \<open>try\<close> around the callback lets none through.
\<close>

definition datagram_received ::
  "(bytes \<Rightarrow> exn + ScanResult) \<Rightarrow> DeviceScanner \<Rightarrow> bytes \<Rightarrow> exn option \<times> DeviceScanner"
where
  "datagram_received parse self dgram =
     (let result = drop 20 (take (length dgram - 8) dgram)
      in case parse result of
           Inl e \<Rightarrow> (Some e, self)
         | Inr scan_result \<Rightarrow> (None, snd (on_device_found_wrapper self scan_result)))"

text \<open>A run of the listener: the datagrams are handled one after the other.\<close>

fun receive_all :: "(bytes \<Rightarrow> exn + ScanResult) \<Rightarrow> DeviceScanner \<Rightarrow> bytes list \<Rightarrow> DeviceScanner" where
  "receive_all parse self [] = self"
| "receive_all parse self (dgram # rest) =
     receive_all parse (snd (datagram_received parse self dgram)) rest"

text \<open>\<open>DeviceScanner.__init__\<close>, and the registration that \<open>add_listener\<close> makes under its key.\<close>

definition DeviceScanner_init :: DeviceScanner where
  "DeviceScanner_init = \<lparr>seen = {}, on_device_found = [], calls = []\<rparr>"

definition add_listener :: "DeviceScanner \<Rightarrow> string \<Rightarrow> DeviceFoundCallback \<Rightarrow> DeviceScanner" where
  "add_listener self key cb = self\<lparr>on_device_found := AList.update key cb (on_device_found self)\<rparr>"

text \<open>
  What a registry's callbacks are handed when each of them is called with \<open>d\<close>, and
  the invariant of the call log: no callback is handed the same result twice, and every
  result handed out has been recorded as seen.
\<close>

definition delivered :: "DeviceFoundCallback dict \<Rightarrow> ScanResult \<Rightarrow> (string \<times> ScanResult) list" where
  "delivered reg d = map (\<lambda>kc. (fst kc, d)) reg"

definition log_ok :: "DeviceScanner \<Rightarrow> bool" where
  "log_ok self = (distinct (calls self) \<and> snd ` set (calls self) \<subseteq> seen self)"

section \<open>Frame codec (tuya_protocol.py)\<close>

text \<open>
  Bytes are lists of 8-bit words. A Python \<open>str\<close> is a \<open>string\<close> holding its UTF-8 bytes,
  so that \<open>s.encode("utf-8")\<close> only changes the type; decoding can fail and belongs to
  the library. \<open>and_then\<close> sequences two steps that can raise.
\<close>

definition and_then :: "exn + 'a \<Rightarrow> ('a \<Rightarrow> exn + 'b) \<Rightarrow> exn + 'b" where
  "and_then r f = (case r of Inl e \<Rightarrow> Inl e | Inr x \<Rightarrow> f x)"

definition encode :: "string \<Rightarrow> bytes" where
  "encode s = map of_char s"

subsection \<open>\<open>struct\<close> and \<open>binascii.crc32\<close>\<close>

text \<open>
  \<open>struct.pack(">I", x)\<close> is the four bytes of \<open>x\<close>, most significant first, and raises
  \<open>struct.error\<close> unless \<open>0 \<le> x < 2 ^ 32\<close>; \<open>pack_Is\<close> is the format \<open>">nI"\<close>.
  \<open>struct.unpack(">nI", b)\<close> raises unless \<open>b\<close> has exactly \<open>4 * n\<close> bytes.
\<close>

definition be32 :: "int \<Rightarrow> bytes" where
  "be32 x = [word_of_int (x div 2 ^ 24), word_of_int (x div 2 ^ 16),
             word_of_int (x div 2 ^ 8), word_of_int x]"

definition pack_I :: "int \<Rightarrow> exn + bytes" where
  "pack_I x = (if 0 \<le> x \<and> x < 2 ^ 32 then Inr (be32 x) else Inl StructError)"

fun pack_Is :: "int list \<Rightarrow> exn + bytes" where
  "pack_Is [] = Inr []"
| "pack_Is (x # xs) =
     and_then (pack_I x) (\<lambda>b. and_then (pack_Is xs) (\<lambda>bs. Inr (b @ bs)))"

definition be_int :: "bytes \<Rightarrow> int" where
  "be_int bs = foldl (\<lambda>acc b. acc * 256 + uint b) 0 bs"

fun unpack_Is :: "nat \<Rightarrow> bytes \<Rightarrow> exn + int list" where
  "unpack_Is 0 bs = (if bs = [] then Inr [] else Inl StructError)"
| "unpack_Is (Suc n) bs =
     (if length bs < 4 then Inl StructError
      else and_then (unpack_Is n (drop 4 bs)) (\<lambda>xs. Inr (be_int (take 4 bs) # xs)))"

text \<open>
  \<open>binascii.crc32\<close>: the CRC-32 of ISO 3309, bit by bit with the reflected polynomial
  \<open>0xEDB88320\<close>, initial value and final complement \<open>0xFFFFFFFF\<close>.
\<close>

definition crc32_bit :: "32 word \<Rightarrow> 32 word" where
  "crc32_bit c = (if bit c 0 then drop_bit 1 c XOR 0xEDB88320 else drop_bit 1 c)"

definition crc32_byte :: "32 word \<Rightarrow> byte \<Rightarrow> 32 word" where
  "crc32_byte c b = (crc32_bit ^^ 8) (c XOR ucast b)"

definition crc32 :: "bytes \<Rightarrow> int" where
  "crc32 bs = uint (NOT (foldl crc32_byte 0xFFFFFFFF bs))"

subsection \<open>Constants and the command table\<close>

definition PROTOCOL_VERSION_BYTES_31 :: bytes where
  "PROTOCOL_VERSION_BYTES_31 = encode ''3.1''"

definition PROTOCOL_VERSION_BYTES_33 :: bytes where
  "PROTOCOL_VERSION_BYTES_33 = encode ''3.3''"

definition PROTOCOL_33_HEADER :: bytes where
  "PROTOCOL_33_HEADER = PROTOCOL_VERSION_BYTES_33 @ replicate 12 0"

definition PREFIX_VALUE :: int where "PREFIX_VALUE = 0x000055AA"
definition SUFFIX_VALUE :: int where "SUFFIX_VALUE = 0x0000AA55"

definition MESSAGE_END_size :: int where
  "MESSAGE_END_size = 8"

definition AP_CONFIG :: int where "AP_CONFIG = 1"
definition CONTROL :: int where "CONTROL = 7"
definition STATUS :: int where "STATUS = 8"
definition HEART_BEAT :: int where "HEART_BEAT = 9"
definition DP_QUERY :: int where "DP_QUERY = 10"
definition CONTROL_NEW :: int where "CONTROL_NEW = 13"
definition DP_QUERY_NEW :: int where "DP_QUERY_NEW = 16"
definition UPDATEDPS :: int where "UPDATEDPS = 18"

text \<open>
  \<open>TUYA_COMMANDS["default"]\<close>: for each command its \<open>hexByte\<close> and its payload template.
  A command that is not in the table raises \<open>KeyError\<close>.
\<close>

definition TUYA_COMMANDS_default :: "(int \<times> string \<times> json dict) list" where
  "TUYA_COMMANDS_default =
     [(AP_CONFIG, ''01'', [(''gwId'', JStr []), (''devId'', JStr []), (''uid'', JStr []), (''t'', JStr [])]),
      (CONTROL, ''07'', [(''devId'', JStr []), (''uid'', JStr []), (''t'', JStr [])]),
      (STATUS, ''08'', [(''gwId'', JStr []), (''devId'', JStr [])]),
      (HEART_BEAT, ''09'', [(''gwId'', JStr []), (''devId'', JStr [])]),
      (DP_QUERY, ''0a'', [(''gwId'', JStr []), (''devId'', JStr []), (''uid'', JStr []), (''t'', JStr [])]),
      (CONTROL_NEW, ''0d'', [(''devId'', JStr []), (''uid'', JStr []), (''t'', JStr [])]),
      (DP_QUERY_NEW, ''0f'', [(''devId'', JStr []), (''uid'', JStr []), (''t'', JStr [])]),
      (UPDATEDPS, ''12'', [(''dpId'', JList [JInt 18, JInt 19, JInt 20])])]"

datatype TuyaRequest = TuyaRequest (seqno: int) (cmd: int) (payload: bytes)

datatype TuyaResponse =
  TuyaResponse (seqno': int) (cmd': int) (payload': bytes) (retcode: int) (crc: int)

subsection \<open>Library functions\<close>

text \<open>
  The functions of PyCryptodome, \<open>base64\<close>, \<open>hashlib\<close>, \<open>json\<close> and the UTF-8 codec
  that the codec calls are parameters of the model, collected in one record:
  \<open>AES.new(key, AES.MODE_ECB).encrypt\<close> and \<open>.decrypt\<close> (which raise \<open>ValueError\<close> on a key
  of the wrong length or on data that is not a multiple of the block size),
  \<open>base64.b64encode\<close> and \<open>b64decode\<close>, \<open>md5(b).hexdigest()\<close>, \<open>json.dumps\<close>,
  \<open>json.loads\<close> (which raises a \<open>ValueError\<close> on a text that is not JSON) and
  \<open>bytes.decode("utf-8")\<close>. Every theorem about the codec holds for whatever these
  functions compute.
\<close>

record pylib =
  aes_ecb_encrypt :: "bytes \<Rightarrow> bytes \<Rightarrow> exn + bytes"
  aes_ecb_decrypt :: "bytes \<Rightarrow> bytes \<Rightarrow> exn + bytes"
  b64encode :: "bytes \<Rightarrow> bytes"
  b64decode :: "bytes \<Rightarrow> exn + bytes"
  md5_hexdigest :: "bytes \<Rightarrow> string"
  json_dumps :: "json \<Rightarrow> string"
  json_loads :: "string \<Rightarrow> exn + json"
  utf8_decode :: "bytes \<Rightarrow> exn + string"

subsection \<open>\<open>AESCipher\<close>\<close>

text \<open>
  \<open>_pad\<close> appends \<open>padnum = 16 - len(s) % 16\<close> bytes of value \<open>padnum\<close>. \<open>_unpad\<close> is
  \<open>s[:-ord(s[len(s) - 1:])]\<close>: a \<open>TypeError\<close> on the empty string, the empty string when
  the last byte is 0, otherwise \<open>s\<close> without its last \<open>n\<close> bytes.
\<close>

definition pad :: "bytes \<Rightarrow> bytes" where
  "pad s = (let padnum = 16 - length s mod 16 in s @ replicate padnum (of_nat padnum))"

definition unpad :: "bytes \<Rightarrow> exn + bytes" where
  "unpad s =
     (if s = [] then Inl TypeError
      else let n = unat (last s)
           in if n = 0 then Inr [] else Inr (take (length s - n) s))"

definition AESCipher_encrypt :: "pylib \<Rightarrow> bytes \<Rightarrow> bytes \<Rightarrow> bool \<Rightarrow> exn + bytes" where
  "AESCipher_encrypt L key raw use_base64 =
     and_then (aes_ecb_encrypt L key (pad raw))
       (\<lambda>crypted_text. Inr (if use_base64 then b64encode L crypted_text else crypted_text))"

definition AESCipher_decrypt :: "pylib \<Rightarrow> bytes \<Rightarrow> bytes \<Rightarrow> bool \<Rightarrow> exn + string" where
  "AESCipher_decrypt L key enc use_base64 =
     and_then (if use_base64 then b64decode L enc else Inr enc)
       (\<lambda>enc. and_then (aes_ecb_decrypt L key enc)
          (\<lambda>raw. and_then (unpad raw) (utf8_decode L)))"

subsection \<open>Packing and unpacking frames\<close>

text \<open>
  \<open>_pack_message\<close> and \<open>unpack_message\<close>. The mask \<open>& 0xFFFFFFFF\<close> is \<open>mod 2 ^ 32\<close>. The
  slices of \<open>unpack_message\<close> are \<open>data[:20]\<close>, \<open>data[20:-8]\<close> and \<open>data[-8:]\<close>; of the
  five header words it keeps the second, third and fifth, and of the two footer words
  the first.
\<close>

definition pack_message :: "TuyaRequest \<Rightarrow> exn + bytes" where
  "pack_message msg =
     and_then (pack_Is [PREFIX_VALUE, seqno msg, cmd msg,
                        int (length (payload msg)) + MESSAGE_END_size])
       (\<lambda>header.
          let buffer = header @ payload msg
          in and_then (pack_Is [crc32 buffer mod 2 ^ 32, SUFFIX_VALUE])
               (\<lambda>footer. Inr (buffer @ footer)))"

definition unpack_message :: "bytes \<Rightarrow> exn + TuyaResponse" where
  "unpack_message dat =
     (let header_len = 20; end_len = 8
      in and_then (unpack_Is 5 (take header_len dat))
           (\<lambda>header.
              let payload = drop header_len (take (length dat - end_len) dat)
              in and_then (unpack_Is 2 (drop (length dat - end_len) dat))
                   (\<lambda>footer.
                      Inr (TuyaResponse (header ! 1) (header ! 2) payload (header ! 4)
                             (footer ! 0)))))"

subsection \<open>Encoding and decoding payloads\<close>

text \<open>
  \<open>int(command_hb, 16)\<close> on a string of hexadecimal digits.
\<close>

definition hex_digit :: "char \<Rightarrow> int option" where
  "hex_digit c =
     (if c \<in> set ''0123456789'' then Some (of_char c - 48)
      else if c \<in> set ''abcdef'' then Some (of_char c - 87)
      else if c \<in> set ''ABCDEF'' then Some (of_char c - 55)
      else None)"

fun int_base16_acc :: "int \<Rightarrow> string \<Rightarrow> exn + int" where
  "int_base16_acc acc [] = Inr acc"
| "int_base16_acc acc (c # cs) =
     (case hex_digit c of
        None \<Rightarrow> Inl (ValueError ''invalid literal for int() with base 16'')
      | Some d \<Rightarrow> int_base16_acc (acc * 16 + d) cs)"

definition int_base16 :: "string \<Rightarrow> exn + int" where
  "int_base16 s =
     (if s = [] then Inl (ValueError ''invalid literal for int() with base 16'')
      else int_base16_acc 0 s)"

text \<open>
  The first part of \<open>_generate_payload\<close>: the template of the command with the fields
  \<open>gwId\<close>, \<open>devId\<close>, \<open>uid\<close> and \<open>t\<close> that it has filled in, and the data stored under
  \<open>dpId\<close> if the template has that key and under \<open>dps\<close> otherwise. Then
  \<open>json.dumps(json_data).replace(" ", "")\<close> and its encoding.
\<close>

definition has_key :: "string \<Rightarrow> 'v dict \<Rightarrow> bool" where
  "has_key k d = (k \<in> fst ` set d)"

definition fill_template :: "json dict \<Rightarrow> string \<Rightarrow> string \<Rightarrow> json dict option \<Rightarrow> json dict" where
  "fill_template = (\<lambda>template ident timestamp data.
     (let json_data = template;
          json_data = (if has_key ''gwId'' json_data
                       then AList.update ''gwId'' (JStr ident) json_data else json_data);
          json_data = (if has_key ''devId'' json_data
                       then AList.update ''devId'' (JStr ident) json_data else json_data);
          json_data = (if has_key ''uid'' json_data
                       then AList.update ''uid'' (JStr ident) json_data else json_data);
          json_data = (if has_key ''t'' json_data
                       then AList.update ''t'' (JStr timestamp) json_data else json_data)
      in case data of
           None \<Rightarrow> json_data
         | Some d \<Rightarrow>
             (if has_key ''dpId'' json_data
              then AList.update ''dpId'' (JDict d) json_data
              else AList.update ''dps'' (JDict d) json_data)))"

definition json_text :: "pylib \<Rightarrow> json dict \<Rightarrow> string" where
  "json_text L json_data =
     (let message = json_dumps L (JDict json_data)
      in filter (\<lambda>c. c \<noteq> CHR '' '') message)"

definition json_message :: "pylib \<Rightarrow> json dict \<Rightarrow> bytes" where
  "json_message L json_data = encode (json_text L json_data)"

text \<open>
  \<open>_generate_payload\<close>, with the branches in the order and at the nesting of the
  source: the test of the version, then the test of \<open>command_hb\<close>, whose \<open>elif\<close> holds
  the encryption for version 3.1.
\<close>

definition generate_payload ::
  "pylib \<Rightarrow> int \<Rightarrow> string \<Rightarrow> string \<Rightarrow> string \<Rightarrow> int \<Rightarrow> string \<Rightarrow> json dict option \<Rightarrow> exn + bytes"
where
  "generate_payload = (\<lambda>L command ident local_key version sequence_number timestamp data.
     (case map_of TUYA_COMMANDS_default command of
        None \<Rightarrow> Inl (KeyError (JInt command))
      | Some (command_hb, template) \<Rightarrow>
          (let json_data = fill_template template ident timestamp data
           in if command_hb = ''0d'' then Inl NotImplementedError
              else
                (let payload = json_message L json_data;
                     blocal_key = encode local_key
                 in and_then (if version = ''3.3''
                              then AESCipher_encrypt L blocal_key payload False
                              else Inr payload)
                      (\<lambda>payload.
                         and_then
                           (if command_hb \<noteq> ''0a'' \<and> command_hb \<noteq> ''12''
                            then Inr (PROTOCOL_33_HEADER @ payload)
                            else if command = CONTROL
                            then and_then (AESCipher_encrypt L blocal_key payload True)
                                   (\<lambda>payload.
                                      let preMd5String =
                                            encode ''data='' @ payload @ encode ''||lpv=''
                                              @ PROTOCOL_VERSION_BYTES_31 @ encode ''||''
                                              @ blocal_key;
                                          hexdigest = md5_hexdigest L preMd5String
                                      in Inr (PROTOCOL_VERSION_BYTES_31
                                                @ encode (take 16 (drop 8 hexdigest))
                                                @ payload))
                            else Inr payload)
                           (\<lambda>payload.
                              and_then (int_base16 command_hb)
                                (\<lambda>c. pack_message (TuyaRequest sequence_number c payload))))))))"

definition decode_payload :: "pylib \<Rightarrow> bytes \<Rightarrow> string \<Rightarrow> string \<Rightarrow> exn + string" where
  "decode_payload = (\<lambda>L payload local_key version.
     (if payload = [] then Inr []
      else
        (let blocal_key = encode local_key
         in if prefix PROTOCOL_VERSION_BYTES_31 payload
            then AESCipher_decrypt L blocal_key
                   (drop 16 (drop (length PROTOCOL_VERSION_BYTES_31) payload)) True
            else if version = ''3.3''
            then (let payload = (if prefix PROTOCOL_VERSION_BYTES_33 payload
                                 then drop (length PROTOCOL_33_HEADER) payload
                                 else payload)
                  in if payload \<noteq> []
                     then AESCipher_decrypt L blocal_key payload False
                     else Inr [])
            else if prefix (encode ''{'') payload
            then utf8_decode L payload
            else Inl (ValueError ''Unexpected payload''))))"

text \<open>
  \<open>data_received\<close> on the first bytes that arrive (the future is not done yet): the
  bytes are unpacked, the payload of the message is decoded, and the result is
  \<open>json.loads\<close> of the text, or \<open>None\<close> when the text is empty. The message is a named
  tuple of five fields, so the test \<open>if msg\<close> succeeds. What the method stores in the
  future, a result or an exception, is what the function returns.
\<close>

definition data_received :: "pylib \<Rightarrow> bytes \<Rightarrow> string \<Rightarrow> string \<Rightarrow> exn + json option" where
  "data_received = (\<lambda>L dat local_key version.
     and_then (unpack_message dat)
       (\<lambda>msg. and_then (decode_payload L (payload' msg) local_key version)
          (\<lambda>payload. if payload \<noteq> [] then map_sum id Some (json_loads L payload)
                     else Inr None)))"

section \<open>Example inputs\<close>

text \<open>
  Concrete devices, scanners and datagrams on which the theorems below are instantiated.
  \<open>example_parse\<close> decodes the one-byte payloads \<open>[1]\<close> and \<open>[2]\<close> to the announcements
  of one bulb at two addresses and rejects every other payload.
\<close>

definition light_data :: DeviceData where
  "light_data =
     \<lparr>id' = ''bf0123456789abcdefgh'', local_key = ''0123456789abcdef'',
      attributes = [''switch_led'', ''bright_value''],
      ip' = Some ''192.168.1.20'', version' = ''3.3'',
      code_to_name = Some [(''1'', ''switch_led''), (''2'', ''bright_value'')],
      name_to_code = Some [(''switch_led'', ''1''), (''bright_value'', ''2'')]\<rparr>"

definition light :: TuyaDevice where
  "light = (TuyaDevice_init light_data)
     \<lparr>state := Some [(''switch_led'', JBool True), (''bright_value'', JInt 100)]\<rparr>"

definition unbound_data :: DeviceData where
  "unbound_data =
     \<lparr>id' = ''bf0123456789abcdefgh'', local_key = ''0123456789abcdef'',
      attributes = [''switch_led'', ''bright_value_v2'', ''temp_value_v2''],
      ip' = None, version' = ''3.3'', code_to_name = None, name_to_code = None\<rparr>"

definition v2_light :: TuyaDevice where
  "v2_light = (TuyaDevice_init (unbound_data\<lparr>ip' := Some ''192.168.1.21''\<rparr>))
     \<lparr>state := Some [(''switch_led'', JBool True), (''bright_value_v2'', JInt 500),
                      (''temp_value_v2'', JInt 300)]\<rparr>"

lemmas ex_defs = light_def light_data_def unbound_data_def TuyaDevice_init_def no_ip_def

definition bulb_at :: "string \<Rightarrow> ScanResult" where
  "bulb_at addr = ScanResult addr ''bf0123456789abcdefgh'' 2 0 0 True ''keyabcdefgh12345'' ''3.3''"

definition example_parse :: "bytes \<Rightarrow> exn + ScanResult" where
  "example_parse body =
     (if body = [1] then Inr (bulb_at ''192.168.1.20'')
      else if body = [2] then Inr (bulb_at ''192.168.1.21'')
      else Inl (ValueError ''Expecting value''))"

definition example_dgram :: "byte \<Rightarrow> bytes" where
  "example_dgram b = replicate 20 0 @ [b] @ replicate 8 0"

definition good_callback :: DeviceFoundCallback where
  "good_callback d = None"

definition failing_callback :: DeviceFoundCallback where
  "failing_callback d = Some OtherException"

definition two_listeners :: DeviceScanner where
  "two_listeners = add_listener (add_listener DeviceScanner_init ''aB3xZ'' good_callback) ''Qr7tY'' good_callback"

definition failing_first :: DeviceScanner where
  "failing_first = add_listener (add_listener DeviceScanner_init ''aB3xZ'' failing_callback) ''Qr7tY'' good_callback"

lemmas scan_defs = two_listeners_def failing_first_def add_listener_def DeviceScanner_init_def
  example_parse_def example_dgram_def good_callback_def failing_callback_def

text \<open>
  An instance of the library record on which the codec can be run: the block cipher is
  replaced by the bytewise complement (with the two checks of the real one), base64 by
  the identity, the digest by a constant, \<open>json.dumps\<close> by a printer for values whose
  strings need no escaping, \<open>json.loads\<close> by a parser for the objects without spaces
  whose members are such strings, and the UTF-8 decoder by one for ASCII.
\<close>

function dec_digits :: "nat \<Rightarrow> string" where
  "dec_digits n =
     (if n < 10 then [char_of (48 + n)]
      else dec_digits (n div 10) @ [char_of (48 + n mod 10)])"
  by pat_completeness auto
termination
  by (relation "measure id") auto

declare dec_digits.simps [simp del]

definition str_int :: "int \<Rightarrow> string" where
  "str_int i = (if i < 0 then CHR ''-'' # dec_digits (nat (- i)) else dec_digits (nat i))"

fun join :: "string \<Rightarrow> string list \<Rightarrow> string" where
  "join sep [] = []"
| "join sep [x] = x"
| "join sep (x # y # ys) = x @ sep @ join sep (y # ys)"

fun example_dumps :: "json \<Rightarrow> string" where
  "example_dumps (JStr s) = CHR 0x22 # s @ [CHR 0x22]"
| "example_dumps (JInt i) = str_int i"
| "example_dumps (JBool b) = (if b then ''true'' else ''false'')"
| "example_dumps JNull = ''null''"
| "example_dumps (JList xs) = CHR ''['' # join '', '' (map example_dumps xs) @ '']''"
| "example_dumps (JDict kvs) =
     CHR ''{'' # join '', '' (map (\<lambda>kv. CHR 0x22 # fst kv @ [CHR 0x22] @ '': '' @ example_dumps (snd kv)) kvs)
       @ ''}''"

text \<open>
  The text cut at its double quotes, and the members read off the pieces: a key, a
  colon, a string, and a comma or the closing brace.
\<close>

fun fields :: "string \<Rightarrow> string list" where
  "fields [] = [[]]"
| "fields (c # cs) =
     (if c = CHR 0x22 then [] # fields cs
      else case fields cs of
             [] \<Rightarrow> [[c]]
           | f # fs \<Rightarrow> (c # f) # fs)"

fun members :: "string list \<Rightarrow> (string \<times> json) list option" where
  "members (k # c # v # sep # rest) =
     (if c \<noteq> '':'' then None
      else if sep = ''}'' \<and> rest = [] then Some [(k, JStr v)]
      else if sep = '','' then map_option ((#) (k, JStr v)) (members rest)
      else None)"
| "members _ = None"

definition example_loads :: "string \<Rightarrow> exn + json" where
  "example_loads s =
     (case fields s of
        [] \<Rightarrow> Inl (ValueError ''Expecting value'')
      | f # fs \<Rightarrow>
          (if f = ''{''
           then case members fs of
                  None \<Rightarrow> Inl (ValueError ''Expecting value'')
                | Some kvs \<Rightarrow> Inr (JDict kvs)
           else Inl (ValueError ''Expecting value'')))"

definition example_cipher :: "bytes \<Rightarrow> bytes \<Rightarrow> exn + bytes" where
  "example_cipher key dat =
     (if length key \<notin> {16, 24, 32} then Inl (ValueError ''Incorrect AES key length'')
      else if length dat mod 16 \<noteq> 0
      then Inl (ValueError ''Data must be aligned to block boundary in ECB mode'')
      else Inr (map (\<lambda>b. NOT b) dat))"

definition example_utf8_decode :: "bytes \<Rightarrow> exn + string" where
  "example_utf8_decode bs =
     (if \<forall>b \<in> set bs. b < 128 then Inr (map (\<lambda>b. char_of (unat b)) bs) else Inl UnicodeDecodeError)"

definition example_lib :: pylib where
  "example_lib =
     \<lparr>aes_ecb_encrypt = example_cipher, aes_ecb_decrypt = example_cipher,
      b64encode = id, b64decode = Inr,
      md5_hexdigest = (\<lambda>bs. replicate 32 CHR ''0''),
      json_dumps = example_dumps, json_loads = example_loads,
      utf8_decode = example_utf8_decode\<rparr>"

definition example_key :: string where
  "example_key = ''0123456789abcdef''"

definition example_id :: string where
  "example_id = ''bf0123456789abcdefgh''"

definition control_template :: "json dict" where
  "control_template = [(''devId'', JStr []), (''uid'', JStr []), (''t'', JStr [])]"

definition query_template :: "json dict" where
  "query_template = [(''gwId'', JStr []), (''devId'', JStr []), (''uid'', JStr []), (''t'', JStr [])]"

definition example_control_message :: bytes where
  "example_control_message =
     json_message example_lib
       (fill_template control_template example_id ''1600000000'' (Some [(''1'', JBool True)]))"

definition example_query_message :: bytes where
  "example_query_message =
     json_message example_lib (fill_template query_template example_id ''1600000000'' None)"

lemmas command_defs = AP_CONFIG_def CONTROL_def STATUS_def HEART_BEAT_def DP_QUERY_def
  CONTROL_NEW_def DP_QUERY_NEW_def UPDATEDPS_def

section \<open>Properties of unit scaling\<close>

text \<open>
  Claim C9. Scaling a value between equal ranges returns the value; scaling the lower
  end of a range gives the lower end of the target range; and, for a source range whose
  two ends differ, scaling its upper end gives the upper end of the target range. None
  of the three goes through the floating-point branch.
\<close>

theorem scale_value_identity_and_endpoints:
  "scale_value interp v R R = Inr v
   \<and> scale_value interp (min_v R) R R2 = Inr (min_v R2)
   \<and> (min_v R \<noteq> max_v R \<longrightarrow> scale_value interp (max_v R) R R2 = Inr (max_v R2))"
  by (auto simp: scale_value_def)

theorem scale_value_identity_and_endpoints_witness:
  "min_v (ValueRange 0 255) \<noteq> max_v (ValueRange 0 255)
   \<and> scale_value (\<lambda>v r1 r2. Inl OverflowError) 128 (ValueRange 0 255) (ValueRange 0 255) = Inr 128
   \<and> scale_value (\<lambda>v r1 r2. Inl OverflowError) 0 (ValueRange 0 255) (ValueRange 370 153) = Inr 370
   \<and> scale_value (\<lambda>v r1 r2. Inl OverflowError) 255 (ValueRange 0 255) (ValueRange 370 153) = Inr 153"
  using scale_value_identity_and_endpoints
    [of "\<lambda>v r1 r2. Inl OverflowError" 128 "ValueRange 0 255" "ValueRange 370 153"]
    scale_value_identity_and_endpoints
    [of "\<lambda>v r1 r2. Inl OverflowError" 128 "ValueRange 0 255" "ValueRange 0 255"]
  by simp

section \<open>Properties of the device model\<close>

subsection \<open>Capability codes of the second generation\<close>

lemma resolve_code_only:
  "c \<in> A \<Longrightarrow> codes \<inter> A = {c} \<Longrightarrow> resolve_code codes A = {Some c}"
  by (auto simp: resolve_code_def Let_def)

lemma bright_v2_ne: "BRIGHT_VALUE_V2 \<noteq> BRIGHT_VALUE"
  by (simp add: BRIGHT_VALUE_V2_def BRIGHT_VALUE_def)

lemma temp_v2_ne: "TEMP_VALUE_V2 \<noteq> TEMP_VALUE"
  by (simp add: TEMP_VALUE_V2_def TEMP_VALUE_def)

lemma brightness_at_v2: "brightness_at parse_int interp mf mt self (Some BRIGHT_VALUE_V2) = Inr None"
  by (simp add: brightness_at_def Let_def bright_v2_ne split: option.splits)

lemma set_brightness_at_v2: "set_brightness_at interp mf mt (Some BRIGHT_VALUE_V2) v = Inr None"
  by (simp add: set_brightness_at_def Let_def bright_v2_ne)

lemma color_temp_at_v2: "color_temp_at parse_int interp mf mt self (Some TEMP_VALUE_V2) = Inr None"
  by (simp add: color_temp_at_def Let_def temp_v2_ne split: option.splits)

lemma set_color_temp_at_v2: "set_color_temp_at interp mf mt (Some TEMP_VALUE_V2) v = Inr None"
  by (simp add: set_color_temp_at_def Let_def temp_v2_ne)

text \<open>
  Claim C10. A device whose attribute codes contain \<open>bright_value_v2\<close> but not
  \<open>bright_value\<close> resolves its brightness code to \<open>bright_value_v2\<close>, yet its brightness
  getter returns \<open>None\<close> whatever its state holds, and its brightness setter returns \<open>None\<close>
  (no write) for every value. The same holds for the colour temperature with
  \<open>temp_value_v2\<close> and \<open>temp_value\<close>.
\<close>

theorem v2_only_code_present_value_absent:
  "(BRIGHT_VALUE_V2 \<in> attributes_set self \<and> BRIGHT_VALUE \<notin> attributes_set self \<longrightarrow>
      brightness_code self = {Some BRIGHT_VALUE_V2}
      \<and> brightness parse_int interp mf mt self = {Inr None}
      \<and> set_brightness interp mf mt self v = {Inr None})
   \<and> (TEMP_VALUE_V2 \<in> attributes_set self \<and> TEMP_VALUE \<notin> attributes_set self \<longrightarrow>
      color_temp_code self = {Some TEMP_VALUE_V2}
      \<and> color_temp parse_int interp mf mt self = {Inr None}
      \<and> set_color_temp interp mf mt self v = {Inr None})"
proof (intro conjI impI)
  assume a: "BRIGHT_VALUE_V2 \<in> attributes_set self \<and> BRIGHT_VALUE \<notin> attributes_set self"
  then have "BRIGHTNESS_CODES \<inter> attributes_set self = {BRIGHT_VALUE_V2}"
    by (auto simp: BRIGHTNESS_CODES_def)
  with a show c: "brightness_code self = {Some BRIGHT_VALUE_V2}"
    by (simp add: brightness_code_def resolve_code_only)
  show "brightness parse_int interp mf mt self = {Inr None}"
    by (simp add: brightness_def c brightness_at_v2)
  show "set_brightness interp mf mt self v = {Inr None}"
    by (simp add: set_brightness_def c set_brightness_at_v2)
next
  assume a: "TEMP_VALUE_V2 \<in> attributes_set self \<and> TEMP_VALUE \<notin> attributes_set self"
  then have "COLOR_TEMP_CODES \<inter> attributes_set self = {TEMP_VALUE_V2}"
    by (auto simp: COLOR_TEMP_CODES_def)
  with a show c: "color_temp_code self = {Some TEMP_VALUE_V2}"
    by (simp add: color_temp_code_def resolve_code_only)
  show "color_temp parse_int interp mf mt self = {Inr None}"
    by (simp add: color_temp_def c color_temp_at_v2)
  show "set_color_temp interp mf mt self v = {Inr None}"
    by (simp add: set_color_temp_def c set_color_temp_at_v2)
qed

theorem v2_only_code_present_value_absent_witness:
  "BRIGHT_VALUE_V2 \<in> attributes_set v2_light \<and> BRIGHT_VALUE \<notin> attributes_set v2_light
   \<and> TEMP_VALUE_V2 \<in> attributes_set v2_light \<and> TEMP_VALUE \<notin> attributes_set v2_light
   \<and> brightness_code v2_light = {Some BRIGHT_VALUE_V2}
   \<and> brightness (\<lambda>s. Inl (ValueError ''invalid literal'')) (\<lambda>v r1 r2. Inl OverflowError) (fst (build_map RANGE_255 (ValueRange 370 153)))
        (snd (build_map RANGE_255 (ValueRange 370 153))) v2_light = {Inr None}
   \<and> set_brightness (\<lambda>v r1 r2. Inl OverflowError) (fst (build_map RANGE_255 (ValueRange 370 153)))
        (snd (build_map RANGE_255 (ValueRange 370 153))) v2_light 128 = {Inr None}
   \<and> color_temp_code v2_light = {Some TEMP_VALUE_V2}
   \<and> color_temp (\<lambda>s. Inl (ValueError ''invalid literal'')) (\<lambda>v r1 r2. Inl OverflowError) (fst (build_map RANGE_255 (ValueRange 370 153)))
        (snd (build_map RANGE_255 (ValueRange 370 153))) v2_light = {Inr None}
   \<and> set_color_temp (\<lambda>v r1 r2. Inl OverflowError) (fst (build_map RANGE_255 (ValueRange 370 153)))
        (snd (build_map RANGE_255 (ValueRange 370 153))) v2_light 200 = {Inr None}"
proof -
  have h: "BRIGHT_VALUE_V2 \<in> attributes_set v2_light \<and> BRIGHT_VALUE \<notin> attributes_set v2_light"
    "TEMP_VALUE_V2 \<in> attributes_set v2_light \<and> TEMP_VALUE \<notin> attributes_set v2_light"
    by (simp_all add: v2_light_def ex_defs BRIGHT_VALUE_V2_def BRIGHT_VALUE_def
        TEMP_VALUE_V2_def TEMP_VALUE_def)
  show ?thesis
    using h v2_only_code_present_value_absent [where self = v2_light
        and parse_int = "\<lambda>s. Inl (ValueError ''invalid literal'')"
        and interp = "\<lambda>v r1 r2. Inl OverflowError"
        and mf = "fst (build_map RANGE_255 (ValueRange 370 153))"
        and mt = "snd (build_map RANGE_255 (ValueRange 370 153))" and v = 128]
      v2_only_code_present_value_absent [where self = v2_light
        and parse_int = "\<lambda>s. Inl (ValueError ''invalid literal'')"
        and interp = "\<lambda>v r1 r2. Inl OverflowError"
        and mf = "fst (build_map RANGE_255 (ValueRange 370 153))"
        and mt = "snd (build_map RANGE_255 (ValueRange 370 153))" and v = 200]
    by simp
qed

subsection \<open>Dictionaries\<close>

lemma dict_update_keys: "fst ` set (dict_update d ps) = fst ` set d \<union> fst ` set ps"
  unfolding dict_update_def
  by (induction ps arbitrary: d) (auto simp: dom_update split: prod.splits)

lemma translate_keys_total:
  "fst ` set src \<subseteq> fst ` set m \<Longrightarrow> \<exists>st. translate_keys m src acc = Inr st"
proof (induction src arbitrary: acc)
  case Nil
  then show ?case by simp
next
  case (Cons a src)
  obtain k v where a: "a = (k, v)" by (cases a)
  from Cons.prems a have "k \<in> fst ` set m" by simp
  then obtain k' where "map_of m k = Some k'"
    by (metis domD dom_map_of_conv_image_fst)
  with Cons a show ?case by simp
qed

lemma dict_update_other:
  "k \<notin> fst ` set other \<Longrightarrow> map_of (dict_update d other) k = map_of d k"
  unfolding dict_update_def
  by (induction other arbitrary: d) (auto simp: update_conv')

lemma dict_update_written:
  "distinct (map fst other) \<Longrightarrow> (k, v) \<in> set other \<Longrightarrow> map_of (dict_update d other) k = Some v"
proof (induction other arbitrary: d)
  case Nil
  then show ?case by simp
next
  case (Cons a other)
  obtain k0 v0 where a: "a = (k0, v0)" by (cases a)
  show ?case
  proof (cases "(k, v) \<in> set other")
    case True
    with Cons a show ?thesis by (simp add: dict_update_def)
  next
    case False
    with Cons.prems a have kv: "k0 = k" "v0 = v" and "k \<notin> fst ` set other"
      by auto
    then have "map_of (dict_update (AList.update k v d) other) k = map_of (AList.update k v d) k"
      by (simp add: dict_update_other)
    with a kv show ?thesis by (simp add: dict_update_def update_conv')
  qed
qed

subsection \<open>Fetching\<close>

lemma fetch_state_connection_error:
  "\<not> no_ip self \<Longrightarrow>
   fetch_state self (Inl ConnectionError) = (None, self\<lparr>failed_connect := failed_connect self + 1\<rparr>)"
  by (simp add: fetch_state_def)

lemma fetch_state_other_exception:
  "\<not> no_ip self \<Longrightarrow> e \<noteq> ConnectionError \<Longrightarrow> fetch_state self (Inl e) = (None, self)"
  by (simp add: fetch_state_def)

lemma no_ip_failed_connect [simp]: "no_ip (self\<lparr>failed_connect := n\<rparr>) = no_ip self"
  by (simp add: no_ip_def)

lemma fetch_all_connection_errors:
  "\<not> no_ip self \<Longrightarrow>
   fetch_all self (replicate n (Inl ConnectionError)) = self\<lparr>failed_connect := failed_connect self + int n\<rparr>"
proof (induction n arbitrary: self)
  case 0
  then show ?case by simp
next
  case (Suc n)
  then show ?case by (simp add: fetch_state_connection_error)
qed

lemma fetch_state_first_success:
  assumes "\<not> no_ip self"
    and "code_to_name (data self) = None \<or> code_to_name (data self) = Some []"
    and "length status \<le> length (attributes (data self))"
  shows "\<exists>st. translate_keys (fst (create_code_name_maps self status)) status [] = Inr st
     \<and> fetch_state self (Inr status)
         = (None, (snd (create_code_name_maps self status))\<lparr>state := Some st, failed_connect := 0\<rparr>)"
proof -
  let ?m = "dict_update [] (zip (map fst status) (attributes (data self)))"
  have "map fst (zip (map fst status) (attributes (data self))) = map fst status"
    using assms(3) by (simp add: map_fst_zip_take)
  then have "fst ` set (zip (map fst status) (attributes (data self))) = fst ` set status"
    by (metis list.set_map)
  then have "fst ` set status \<subseteq> fst ` set ?m"
    by (simp add: dict_update_keys)
  from translate_keys_total [OF this, of "[]"] obtain st
    where st: "translate_keys ?m status [] = Inr st" ..
  obtain self1 where c: "create_code_name_maps self status = (?m, self1)"
    by (simp add: create_code_name_maps_def Let_def)
  have "fetch_state self (Inr status)
     = (None, self1\<lparr>state := Some st, failed_connect := 0\<rparr>)"
    using assms(1,2) st by (auto simp: fetch_state_def c)
  then have "fetch_state self (Inr status)
     = (None, (snd (create_code_name_maps self status))\<lparr>state := Some st, failed_connect := 0\<rparr>)"
    by (simp add: c)
  moreover have "translate_keys (fst (create_code_name_maps self status)) status [] = Inr st"
    using st by (simp add: c)
  ultimately show ?thesis
    by blast
qed

lemma translate_keys_missing:
  "\<not> fst ` set src \<subseteq> fst ` set m \<Longrightarrow>
   \<exists>k. k \<in> fst ` set src \<and> k \<notin> fst ` set m \<and> translate_keys m src acc = Inl (KeyError (JStr k))"
proof (induction src arbitrary: acc)
  case Nil
  then show ?case by simp
next
  case (Cons a src)
  obtain k v where a: "a = (k, v)" by (cases a)
  show ?case
  proof (cases "map_of m k")
    case None
    then have "k \<notin> fst ` set m"
      by (simp add: map_of_eq_None_iff)
    with None a show ?thesis
      by (intro exI [of _ k]) simp
  next
    case (Some k')
    then have "k \<in> fst ` set m"
      by (metis domI dom_map_of_conv_image_fst)
    with Cons.prems a have "\<not> fst ` set src \<subseteq> fst ` set m"
      by auto
    from Cons.IH [OF this, of "AList.update k' v acc"] Some a show ?thesis
      by auto
  qed
qed

lemma zip_keys_short:
  assumes "distinct codes" "length attrs < length codes"
  shows "\<not> set codes \<subseteq> fst ` set (zip codes attrs)"
proof -
  have "map fst (zip codes attrs) = take (length attrs) codes"
    using assms(2) by (simp add: map_fst_zip_take min_def)
  then have k: "fst ` set (zip codes attrs) = set (take (length attrs) codes)"
    by (metis list.set_map)
  have "codes ! length attrs \<in> set codes"
    using assms(2) by simp
  moreover have "codes ! length attrs \<notin> set (take (length attrs) codes)"
  proof -
    have "distinct (take (length attrs) codes @ drop (length attrs) codes)"
      using assms(1) by simp
    then have "set (take (length attrs) codes) \<inter> set (drop (length attrs) codes) = {}"
      by (simp only: distinct_append)
    moreover have "drop (length attrs) codes = codes ! length attrs # drop (Suc (length attrs)) codes"
      using assms(2) by (simp add: Cons_nth_drop_Suc)
    then have "codes ! length attrs \<in> set (drop (length attrs) codes)"
      by simp
    ultimately show ?thesis
      by blast
  qed
  ultimately show ?thesis
    using k by blast
qed

lemma create_code_name_maps_keeps:
  "failed_connect (snd (create_code_name_maps self status)) = failed_connect self"
  "state (snd (create_code_name_maps self status)) = state self"
  "fst (create_code_name_maps self status)
     = dict_update [] (zip (map fst status) (attributes (data self)))"
  by (simp_all add: create_code_name_maps_def Let_def)

lemma fetch_state_no_ip:
  "no_ip self \<Longrightarrow> fetch_state self outcome = (Some (ValueError ''No IP address''), self)"
  by (simp add: fetch_state_def)

lemma fetch_state_named:
  assumes "\<not> no_ip self" "code_to_name (data self) = Some m" "m \<noteq> []"
    "fst ` set status \<subseteq> fst ` set m"
  shows "\<exists>st. translate_keys m status [] = Inr st
     \<and> fetch_state self (Inr status) = (None, self\<lparr>state := Some st, failed_connect := 0\<rparr>)"
proof -
  from translate_keys_total [OF assms(4)] obtain st where "translate_keys m status [] = Inr st"
    by blast
  with assms(1-3) show ?thesis
    by (simp add: fetch_state_def)
qed

lemma fetch_state_unnamed:
  assumes "\<not> no_ip self" "code_to_name (data self) = Some m" "m \<noteq> []"
    "\<not> fst ` set status \<subseteq> fst ` set m"
  shows "\<exists>k. k \<in> fst ` set status \<and> k \<notin> fst ` set m
     \<and> fetch_state self (Inr status) = (Some (KeyError (JStr k)), self)"
proof -
  from translate_keys_missing [OF assms(4), of "[]"] obtain k
    where "k \<in> fst ` set status" "k \<notin> fst ` set m"
      "translate_keys m status [] = Inl (KeyError (JStr k))"
    by blast
  with assms(1-3) show ?thesis
    by (intro exI [of _ k]) (simp add: fetch_state_def)
qed

lemma fetch_state_first_unnamed:
  assumes "\<not> no_ip self"
    and "code_to_name (data self) = None \<or> code_to_name (data self) = Some []"
    and "distinct (map fst status)"
    and "length (attributes (data self)) < length status"
  shows "\<exists>k. k \<in> fst ` set status
     \<and> fetch_state self (Inr status)
         = (Some (KeyError (JStr k)), snd (create_code_name_maps self status))"
proof -
  let ?m = "dict_update [] (zip (map fst status) (attributes (data self)))"
  have "\<not> set (map fst status) \<subseteq> fst ` set (zip (map fst status) (attributes (data self)))"
    using assms(3,4) by (intro zip_keys_short) simp_all
  then have "\<not> fst ` set status \<subseteq> fst ` set ?m"
    by (simp add: dict_update_keys)
  from translate_keys_missing [OF this, of "[]"] obtain k
    where k: "k \<in> fst ` set status" "translate_keys ?m status [] = Inl (KeyError (JStr k))"
    by blast
  obtain self1 where c: "create_code_name_maps self status = (?m, self1)"
    by (simp add: create_code_name_maps_def Let_def)
  have "fetch_state self (Inr status) = (Some (KeyError (JStr k)), self1)"
    using assms(1,2) k(2) by (auto simp: fetch_state_def c)
  with k(1) c show ?thesis
    by (intro exI [of _ k]) simp
qed

lemma fetch_all_other_exceptions:
  "\<not> no_ip self \<Longrightarrow> e \<noteq> ConnectionError \<Longrightarrow> fetch_all self (replicate n (Inl e)) = self"
  by (induction n) (simp_all add: fetch_state_other_exception)

text \<open>
  As claim C8 states it, on every device a fetch either fails with a connection failure
  and is counted, or fails otherwise and is swallowed, or succeeds and resets the
  counter, and four consecutive failed fetches make the assumed-state flag true. In
  the code the state is built and the counter reset after the \<open>try\<close>, outside both
  handlers: when the exchange succeeds with a status that holds a code the code map does
  not name, \<open>KeyError\<close> is raised past the caller and the counter keeps its value. Only
  \<open>ConnectionError\<close> is counted: four fetches that fail with no route to host leave the
  counter at 0 and the flag false. A device without an IP address raises \<open>ValueError\<close>
  before any exchange.
\<close>

theorem fetch_state_counterexample:
  "\<not> no_ip light
   \<and> code_to_name (data light) = Some [(''1'', ''switch_led''), (''2'', ''bright_value'')]
   \<and> fetch_state (light\<lparr>failed_connect := 2\<rparr>) (Inr [(''1'', JBool False), (''9'', JInt 5)])
       = (Some (KeyError (JStr ''9'')), light\<lparr>failed_connect := 2\<rparr>)
   \<and> failed_connect light = 0
   \<and> fetch_all light (replicate 4 (Inl (OSError 113))) = light
   \<and> \<not> assumed_state (fetch_all light (replicate 4 (Inl (OSError 113))))
   \<and> fetch_state (TuyaDevice_init unbound_data) (Inl ConnectionError)
       = (Some (ValueError ''No IP address''), TuyaDevice_init unbound_data)"
  by (simp add: fetch_state_def ex_defs assumed_state_def numeral_eq_Suc)

text \<open>
  Claim C8, amended. A fetch on a device without an IP address raises \<open>ValueError\<close>
  and changes nothing. On a device with an IP address: a fetch whose exchange raises
  \<open>ConnectionError\<close> returns without raising and increments the failure counter; a
  fetch whose exchange raises any other exception returns without raising and leaves
  the device unchanged, the counter included, however often it is repeated; a fetch
  whose exchange returns a status stores the status under the names of its codes and
  resets the counter to 0 when the code map names every code of the status (on a first
  fetch, when the status has no more codes than the device has attributes), and
  otherwise raises \<open>KeyError\<close> for an unnamed code past the caller, the counter and the
  state unchanged. The assumed-state flag is true exactly when the counter exceeds 3:
  from a counter of 0, three consecutive \<open>ConnectionError\<close> fetches leave it false,
  four make it true, and a fetch with a fully named status after them resets the counter
  to 0 and the flag to false.
\<close>

theorem fetch_state_counter_and_assumed_state:
  "(no_ip self \<longrightarrow> fetch_state self outcome = (Some (ValueError ''No IP address''), self))
   \<and> (\<not> no_ip self \<longrightarrow>
        fetch_state self (Inl ConnectionError)
          = (None, self\<lparr>failed_connect := failed_connect self + 1\<rparr>)
      \<and> (e \<noteq> ConnectionError \<longrightarrow>
            fetch_state self (Inl e) = (None, self)
            \<and> fetch_all self (replicate n (Inl e)) = self)
      \<and> (code_to_name (data self) = Some m \<and> m \<noteq> [] \<and> fst ` set status \<subseteq> fst ` set m \<longrightarrow>
            (\<exists>st. translate_keys m status [] = Inr st
               \<and> fetch_state self (Inr status)
                   = (None, self\<lparr>state := Some st, failed_connect := 0\<rparr>)
               \<and> (failed_connect self = 0 \<longrightarrow>
                    fetch_state (fetch_all self (replicate 4 (Inl ConnectionError))) (Inr status)
                      = (None, self\<lparr>state := Some st, failed_connect := 0\<rparr>))))
      \<and> (code_to_name (data self) = Some m \<and> m \<noteq> [] \<and> \<not> fst ` set status \<subseteq> fst ` set m \<longrightarrow>
            (\<exists>k. k \<in> fst ` set status \<and> k \<notin> fst ` set m
               \<and> fetch_state self (Inr status) = (Some (KeyError (JStr k)), self)))
      \<and> ((code_to_name (data self) = None \<or> code_to_name (data self) = Some [])
            \<and> length status \<le> length (attributes (data self)) \<longrightarrow>
            (\<exists>st. translate_keys (fst (create_code_name_maps self status)) status [] = Inr st
               \<and> fetch_state self (Inr status)
                   = (None, (snd (create_code_name_maps self status))
                              \<lparr>state := Some st, failed_connect := 0\<rparr>)))
      \<and> ((code_to_name (data self) = None \<or> code_to_name (data self) = Some [])
            \<and> distinct (map fst status) \<and> length (attributes (data self)) < length status \<longrightarrow>
            (\<exists>k. k \<in> fst ` set status
               \<and> fetch_state self (Inr status)
                   = (Some (KeyError (JStr k)), snd (create_code_name_maps self status))))
      \<and> (failed_connect self = 0 \<longrightarrow>
            \<not> assumed_state (fetch_all self (replicate 3 (Inl ConnectionError)))
            \<and> assumed_state (fetch_all self (replicate 4 (Inl ConnectionError)))))
   \<and> failed_connect (snd (create_code_name_maps self status)) = failed_connect self
   \<and> state (snd (create_code_name_maps self status)) = state self
   \<and> (assumed_state self \<longleftrightarrow> failed_connect self > 3)
   \<and> \<not> assumed_state (self\<lparr>state := s, failed_connect := 0\<rparr>)"
proof (intro conjI impI)
  assume "no_ip self"
  then show "fetch_state self outcome = (Some (ValueError ''No IP address''), self)"
    by (rule fetch_state_no_ip)
next
  assume "\<not> no_ip self"
  then show "fetch_state self (Inl ConnectionError)
      = (None, self\<lparr>failed_connect := failed_connect self + 1\<rparr>)"
    by (rule fetch_state_connection_error)
next
  assume "\<not> no_ip self" "e \<noteq> ConnectionError"
  then show "fetch_state self (Inl e) = (None, self)"
    by (rule fetch_state_other_exception)
next
  assume "\<not> no_ip self" "e \<noteq> ConnectionError"
  then show "fetch_all self (replicate n (Inl e)) = self"
    by (rule fetch_all_other_exceptions)
next
  assume ip: "\<not> no_ip self"
    and a: "code_to_name (data self) = Some m \<and> m \<noteq> [] \<and> fst ` set status \<subseteq> fst ` set m"
  from a have m: "code_to_name (data self) = Some m" "m \<noteq> []" "fst ` set status \<subseteq> fst ` set m"
    by simp_all
  from fetch_state_named [OF ip m] obtain st where st: "translate_keys m status [] = Inr st"
    "fetch_state self (Inr status) = (None, self\<lparr>state := Some st, failed_connect := 0\<rparr>)"
    by blast
  have "fetch_state (fetch_all self (replicate 4 (Inl ConnectionError))) (Inr status)
      = (None, self\<lparr>state := Some st, failed_connect := 0\<rparr>)"
    using ip m(1,2) st(1) by (simp add: fetch_all_connection_errors fetch_state_def)
  with st show "\<exists>st. translate_keys m status [] = Inr st
       \<and> fetch_state self (Inr status) = (None, self\<lparr>state := Some st, failed_connect := 0\<rparr>)
       \<and> (failed_connect self = 0 \<longrightarrow>
            fetch_state (fetch_all self (replicate 4 (Inl ConnectionError))) (Inr status)
              = (None, self\<lparr>state := Some st, failed_connect := 0\<rparr>))"
    by blast
next
  assume ip: "\<not> no_ip self"
    and a: "code_to_name (data self) = Some m \<and> m \<noteq> [] \<and> \<not> fst ` set status \<subseteq> fst ` set m"
  then show "\<exists>k. k \<in> fst ` set status \<and> k \<notin> fst ` set m
       \<and> fetch_state self (Inr status) = (Some (KeyError (JStr k)), self)"
    by (intro fetch_state_unnamed) simp_all
next
  assume ip: "\<not> no_ip self"
    and a: "(code_to_name (data self) = None \<or> code_to_name (data self) = Some [])
            \<and> length status \<le> length (attributes (data self))"
  then show "\<exists>st. translate_keys (fst (create_code_name_maps self status)) status [] = Inr st
       \<and> fetch_state self (Inr status)
           = (None, (snd (create_code_name_maps self status))\<lparr>state := Some st, failed_connect := 0\<rparr>)"
    by (intro fetch_state_first_success) simp_all
next
  assume ip: "\<not> no_ip self"
    and a: "(code_to_name (data self) = None \<or> code_to_name (data self) = Some [])
            \<and> distinct (map fst status) \<and> length (attributes (data self)) < length status"
  then show "\<exists>k. k \<in> fst ` set status
       \<and> fetch_state self (Inr status)
           = (Some (KeyError (JStr k)), snd (create_code_name_maps self status))"
    by (intro fetch_state_first_unnamed) simp_all
next
  assume "\<not> no_ip self" "failed_connect self = 0"
  then show "\<not> assumed_state (fetch_all self (replicate 3 (Inl ConnectionError)))"
    by (simp add: fetch_all_connection_errors assumed_state_def)
next
  assume "\<not> no_ip self" "failed_connect self = 0"
  then show "assumed_state (fetch_all self (replicate 4 (Inl ConnectionError)))"
    by (simp add: fetch_all_connection_errors assumed_state_def)
next
  show "failed_connect (snd (create_code_name_maps self status)) = failed_connect self"
    by (rule create_code_name_maps_keeps)
  show "state (snd (create_code_name_maps self status)) = state self"
    by (rule create_code_name_maps_keeps)
  show "assumed_state self \<longleftrightarrow> failed_connect self > 3"
    by (simp add: assumed_state_def)
  show "\<not> assumed_state (self\<lparr>state := s, failed_connect := 0\<rparr>)"
    by (simp add: assumed_state_def)
qed

theorem fetch_state_counter_and_assumed_state_witness:
  "no_ip (TuyaDevice_init unbound_data)
   \<and> fetch_state (TuyaDevice_init unbound_data) (Inl ConnectionError)
       = (Some (ValueError ''No IP address''), TuyaDevice_init unbound_data)
   \<and> \<not> no_ip light \<and> \<not> no_ip v2_light
   \<and> fetch_state light (Inl ConnectionError)
       = (None, light\<lparr>failed_connect := failed_connect light + 1\<rparr>)
   \<and> OSError 113 \<noteq> ConnectionError
   \<and> fetch_state light (Inl (OSError 113)) = (None, light)
   \<and> fetch_all light (replicate 4 (Inl (OSError 113))) = light
   \<and> code_to_name (data light) = Some [(''1'', ''switch_led''), (''2'', ''bright_value'')]
   \<and> fst ` set [(''1'', JBool False), (''2'', JInt 30)]
       \<subseteq> fst ` set [(''1'', ''switch_led''), (''2'', ''bright_value'')]
   \<and> failed_connect light = 0
   \<and> fetch_state light (Inr [(''1'', JBool False), (''2'', JInt 30)])
       = (None, light\<lparr>state := Some [(''switch_led'', JBool False), (''bright_value'', JInt 30)],
                      failed_connect := 0\<rparr>)
   \<and> \<not> assumed_state (fetch_all light (replicate 3 (Inl ConnectionError)))
   \<and> assumed_state (fetch_all light (replicate 4 (Inl ConnectionError)))
   \<and> fetch_state (fetch_all light (replicate 4 (Inl ConnectionError)))
        (Inr [(''1'', JBool False), (''2'', JInt 30)])
       = (None, light\<lparr>state := Some [(''switch_led'', JBool False), (''bright_value'', JInt 30)],
                      failed_connect := 0\<rparr>)
   \<and> \<not> assumed_state
         (light\<lparr>state := Some [(''switch_led'', JBool False), (''bright_value'', JInt 30)],
                failed_connect := 0\<rparr>)
   \<and> \<not> fst ` set [(''1'', JBool False), (''9'', JInt 5)]
         \<subseteq> fst ` set [(''1'', ''switch_led''), (''2'', ''bright_value'')]
   \<and> fetch_state light (Inr [(''1'', JBool False), (''9'', JInt 5)])
       = (Some (KeyError (JStr ''9'')), light)
   \<and> code_to_name (data v2_light) = None
   \<and> length [(''1'', JBool False), (''2'', JInt 30)] \<le> length (attributes (data v2_light))
   \<and> (\<exists>st. fetch_state v2_light (Inr [(''1'', JBool False), (''2'', JInt 30)])
          = (None, (snd (create_code_name_maps v2_light [(''1'', JBool False), (''2'', JInt 30)]))
                     \<lparr>state := Some st, failed_connect := 0\<rparr>))
   \<and> distinct (map fst [(''1'', JBool False), (''2'', JInt 30), (''3'', JInt 7), (''4'', JInt 8)])
   \<and> length (attributes (data v2_light))
       < length [(''1'', JBool False), (''2'', JInt 30), (''3'', JInt 7), (''4'', JInt 8)]
   \<and> (\<exists>k. fetch_state v2_light
              (Inr [(''1'', JBool False), (''2'', JInt 30), (''3'', JInt 7), (''4'', JInt 8)])
          = (Some (KeyError (JStr k)),
             snd (create_code_name_maps v2_light
                    [(''1'', JBool False), (''2'', JInt 30), (''3'', JInt 7), (''4'', JInt 8)])))
   \<and> failed_connect (snd (create_code_name_maps v2_light
                    [(''1'', JBool False), (''2'', JInt 30), (''3'', JInt 7), (''4'', JInt 8)]))
       = failed_connect v2_light"
proof -
  let ?S = "[(''1'', JBool False), (''2'', JInt 30)]"
  let ?U = "[(''1'', JBool False), (''9'', JInt 5)]"
  let ?F = "[(''1'', JBool False), (''2'', JInt 30), (''3'', JInt 7), (''4'', JInt 8)]"
  let ?M = "[(''1'', ''switch_led''), (''2'', ''bright_value'')]"
  let ?st = "[(''switch_led'', JBool False), (''bright_value'', JInt 30)]"
  have h: "no_ip (TuyaDevice_init unbound_data)" "\<not> no_ip light" "\<not> no_ip v2_light"
    by (simp_all add: ex_defs v2_light_def)
  have m: "code_to_name (data light) = Some ?M" "?M \<noteq> []"
    "code_to_name (data v2_light) = None" "failed_connect light = 0"
    by (simp_all add: ex_defs v2_light_def)
  have s: "fst ` set ?S \<subseteq> fst ` set ?M" "\<not> fst ` set ?U \<subseteq> fst ` set ?M"
    "length ?S \<le> length (attributes (data v2_light))" "distinct (map fst ?F)"
    "length (attributes (data v2_light)) < length ?F"
    by (simp_all add: ex_defs v2_light_def)
  have t: "translate_keys ?M ?S [] = Inr ?st"
    by simp
  have e: "OSError 113 \<noteq> ConnectionError"
    by simp
  note N = fetch_state_counter_and_assumed_state [where self = "TuyaDevice_init unbound_data"
      and outcome = "Inl ConnectionError", THEN conjunct1, rule_format, OF h(1)]
  note L = fetch_state_counter_and_assumed_state [where self = light and e = "OSError 113"
      and n = 4 and m = ?M and status = ?S, THEN conjunct2, THEN conjunct1, rule_format, OF h(2)]
  note U = fetch_state_counter_and_assumed_state [where self = light and m = ?M and status = ?U,
      THEN conjunct2, THEN conjunct1, rule_format, OF h(2)]
  note V = fetch_state_counter_and_assumed_state [where self = v2_light and status = ?S,
      THEN conjunct2, THEN conjunct1, rule_format, OF h(3)]
  note W = fetch_state_counter_and_assumed_state [where self = v2_light and status = ?F,
      THEN conjunct2, THEN conjunct1, rule_format, OF h(3)]
  note K = fetch_state_counter_and_assumed_state [where self = v2_light and status = ?F,
      THEN conjunct2, THEN conjunct2, THEN conjunct1]
  note A = fetch_state_counter_and_assumed_state [where self = light and s = "Some ?st",
      THEN conjunct2, THEN conjunct2, THEN conjunct2, THEN conjunct2, THEN conjunct2]
  have l1: "fetch_state light (Inl ConnectionError)
       = (None, light\<lparr>failed_connect := failed_connect light + 1\<rparr>)"
    using L by blast
  have l2: "fetch_state light (Inl (OSError 113)) = (None, light)"
    "fetch_all light (replicate 4 (Inl (OSError 113))) = light"
    using L e by blast+
  have l3: "fetch_state light (Inr ?S) = (None, light\<lparr>state := Some ?st, failed_connect := 0\<rparr>)"
    "fetch_state (fetch_all light (replicate 4 (Inl ConnectionError))) (Inr ?S)
       = (None, light\<lparr>state := Some ?st, failed_connect := 0\<rparr>)"
    using L m(1,2,4) s(1) t by auto
  have l4: "\<not> assumed_state (fetch_all light (replicate 3 (Inl ConnectionError)))"
    "assumed_state (fetch_all light (replicate 4 (Inl ConnectionError)))"
    using L m(4) by blast+
  have u: "fetch_state light (Inr ?U) = (Some (KeyError (JStr ''9'')), light)"
    using U m(1,2) s(2) by auto
  have v: "\<exists>st. fetch_state v2_light (Inr ?S)
          = (None, (snd (create_code_name_maps v2_light ?S))\<lparr>state := Some st, failed_connect := 0\<rparr>)"
    using V m(3) s(3) by blast
  have w: "\<exists>k. fetch_state v2_light (Inr ?F)
          = (Some (KeyError (JStr k)), snd (create_code_name_maps v2_light ?F))"
    using W m(3) s(4,5) by blast
  from h N l1 e l2 m(1) s(1) m(4) l3(1) l4 l3(2) A s(2) u m(3) s(3) v s(4,5) w K
  show ?thesis
    by (intro conjI)
qed

subsection \<open>Setting\<close>

lemma set_state_loop_exit:
  "max_attempt \<le> attempt \<Longrightarrow> set_state_loop ex status val attempt self = (False, self, attempt)"
  by (simp add: set_state_loop.simps [of _ _ _ attempt])

lemma set_state_loop_1:
  "set_state_loop ex status val (Suc 0) self =
     (case ex 1 status of
        Inr _ \<Rightarrow> (True, merge_written self val, 2)
      | Inl e \<Rightarrow> (False, self, 2))"
  using set_state_loop_exit [of "Suc (Suc 0)" ex status val self]
  by (simp add: set_state_loop.simps [of _ _ _ "Suc 0"] max_attempt_def numeral_2_eq_2
      split: sum.splits)

lemma set_state_loop_0:
  "set_state_loop ex status value 0 self =
     (case ex 0 status of
        Inr _ \<Rightarrow> (True, merge_written self value, 1)
      | Inl e \<Rightarrow>
          (if e \<noteq> ConnectionError then (False, self, 1)
           else case ex 1 status of
                  Inr _ \<Rightarrow> (True, merge_written self value, 2)
                | Inl e' \<Rightarrow> (False, self, 2)))"
  by (simp add: set_state_loop.simps [of _ _ _ 0] set_state_loop_1 max_attempt_def split: sum.splits)

lemma set_state_not_ready:
  "\<not> no_ip self \<Longrightarrow> name_to_code (data self) = None \<or> name_to_code (data self) = Some [] \<Longrightarrow>
   set_state self value ex = (Inl NOT_READY, self, 0)"
  by (auto simp: set_state_def)

lemma set_state_exchange:
  assumes "\<not> no_ip self" "name_to_code (data self) = Some m" "m \<noteq> []"
    "translate_keys m value [] = Inr status"
  shows "set_state self value ex =
     (case ex 0 status of
        Inr _ \<Rightarrow> (Inr True, merge_written self value, 1)
      | Inl e \<Rightarrow>
          (if e \<noteq> ConnectionError then (Inr False, self, 1)
           else case ex 1 status of
                  Inr _ \<Rightarrow> (Inr True, merge_written self value, 2)
                | Inl e' \<Rightarrow> (Inr False, self, 2)))"
  using assms by (simp add: set_state_def set_state_loop_0 split: sum.splits)

text \<open>
  As claim C5 states it, \<open>set_state\<close> fails with the not-ready error whenever the
  name-to-code map does not exist, exchanges whenever it exists, and merges the written
  values on success. The code differs in three places: a device without an IP address
  fails with \<open>No IP address\<close> before the map is looked at; a written name that the map
  lacks raises \<open>KeyError\<close> before any exchange; and an empty state is left empty by a
  successful write.
\<close>

theorem set_state_counterexample:
  "name_to_code (data (TuyaDevice_init unbound_data)) = None
   \<and> set_state (TuyaDevice_init unbound_data) [(''bright_value'', JInt 25)] (\<lambda>n status. Inr ())
       = (Inl (ValueError ''No IP address''), TuyaDevice_init unbound_data, 0)
   \<and> ValueError ''No IP address'' \<noteq> NOT_READY
   \<and> set_state light [(''colour_data'', JStr ''ff00000000ffff'')] (\<lambda>n status. Inr ())
       = (Inl (KeyError (JStr ''colour_data'')), light, 0)
   \<and> set_state (light\<lparr>state := Some []\<rparr>) [(''bright_value'', JInt 25)] (\<lambda>n status. Inr ())
       = (Inr True, light\<lparr>state := Some []\<rparr>, 1)"
  by (simp add: set_state_def ex_defs NOT_READY_def set_state_loop.simps [of _ _ _ 0]
      max_attempt_def merge_written_def)

text \<open>
  Claim C5, amended. For a device that has an IP address: if the name-to-code map is
  absent or empty, \<open>set_state\<close> fails at once with the not-ready error, without an
  exchange and without changing the device. If the map is non-empty and holds every
  written name, \<open>set_state\<close> makes one exchange, and a second one only if the first
  failed with a connection failure; it returns true, with the written values merged
  into the state, as soon as an exchange succeeds, and false, with the device unchanged,
  at the first other exception or after the second connection failure. Merging into a
  present, non-empty state keeps the value of every key that is not written and stores
  the written value under every key that is.
\<close>

theorem set_state_not_ready_retry_merge:
  assumes "\<not> no_ip self"
  shows "(name_to_code (data self) = None \<or> name_to_code (data self) = Some [] \<longrightarrow>
            set_state self val exch = (Inl NOT_READY, self, 0))
       \<and> (name_to_code (data self) = Some m \<and> m \<noteq> [] \<and> fst ` set val \<subseteq> fst ` set m \<longrightarrow>
            (\<exists>status. translate_keys m val [] = Inr status \<and>
               set_state self val exch =
                 (case exch 0 status of
                    Inr _ \<Rightarrow> (Inr True, merge_written self val, 1)
                  | Inl e \<Rightarrow>
                      (if e \<noteq> ConnectionError then (Inr False, self, 1)
                       else case exch 1 status of
                              Inr _ \<Rightarrow> (Inr True, merge_written self val, 2)
                            | Inl e' \<Rightarrow> (Inr False, self, 2)))))
       \<and> (state self = Some st \<and> st \<noteq> [] \<longrightarrow>
            state (merge_written self val) = Some (dict_update st val)
            \<and> (k \<notin> fst ` set val \<longrightarrow> map_of (dict_update st val) k = map_of st k)
            \<and> (distinct (map fst val) \<and> (k, v) \<in> set val \<longrightarrow>
                 map_of (dict_update st val) k = Some v))"
proof (intro conjI impI)
  assume "name_to_code (data self) = None \<or> name_to_code (data self) = Some []"
  with assms show "set_state self val exch = (Inl NOT_READY, self, 0)"
    by (rule set_state_not_ready)
next
  assume a: "name_to_code (data self) = Some m \<and> m \<noteq> [] \<and> fst ` set val \<subseteq> fst ` set m"
  then have sub: "fst ` set val \<subseteq> fst ` set m"
    by simp
  from translate_keys_total [OF sub, of "[]"]
  obtain status where st: "translate_keys m val [] = Inr status" ..
  from a have m: "name_to_code (data self) = Some m" and ne: "m \<noteq> []"
    by simp_all
  show "\<exists>status. translate_keys m val [] = Inr status \<and>
               set_state self val exch =
                 (case exch 0 status of
                    Inr _ \<Rightarrow> (Inr True, merge_written self val, 1)
                  | Inl e \<Rightarrow>
                      (if e \<noteq> ConnectionError then (Inr False, self, 1)
                       else case exch 1 status of
                              Inr _ \<Rightarrow> (Inr True, merge_written self val, 2)
                            | Inl e' \<Rightarrow> (Inr False, self, 2)))"
    using st set_state_exchange [OF assms m ne st, of exch] by (intro exI conjI)
next
  assume "state self = Some st \<and> st \<noteq> []"
  then show "state (merge_written self val) = Some (dict_update st val)"
    by (simp add: merge_written_def)
next
  assume "k \<notin> fst ` set val"
  then show "map_of (dict_update st val) k = map_of st k"
    by (rule dict_update_other)
next
  assume "distinct (map fst val) \<and> (k, v) \<in> set val"
  then show "map_of (dict_update st val) k = Some v"
    by (simp add: dict_update_written)
qed

theorem set_state_witness:
  "\<not> no_ip light
   \<and> set_state (light\<lparr>data := (data light)\<lparr>name_to_code := None\<rparr>\<rparr>) [(''bright_value'', JInt 25)]
        (\<lambda>n status. Inr ())
       = (Inl NOT_READY, light\<lparr>data := (data light)\<lparr>name_to_code := None\<rparr>\<rparr>, 0)
   \<and> set_state light [(''bright_value'', JInt 25)]
        (\<lambda>n status. if n = 0 then Inl ConnectionError else Inr ())
       = (Inr True, merge_written light [(''bright_value'', JInt 25)], 2)
   \<and> state (merge_written light [(''bright_value'', JInt 25)])
       = Some [(''switch_led'', JBool True), (''bright_value'', JInt 25)]
   \<and> ''switch_led'' \<notin> fst ` set [(''bright_value'', JInt 25)]
   \<and> map_of (dict_update [(''switch_led'', JBool True), (''bright_value'', JInt 100)]
         [(''bright_value'', JInt 25)]) ''switch_led''
       = map_of [(''switch_led'', JBool True), (''bright_value'', JInt 100)] ''switch_led''
   \<and> distinct (map fst [(''bright_value'', JInt 25)])
   \<and> (''bright_value'', JInt 25) \<in> set [(''bright_value'', JInt 25)]
   \<and> map_of (dict_update [(''switch_led'', JBool True), (''bright_value'', JInt 100)]
         [(''bright_value'', JInt 25)]) ''bright_value''
       = Some (JInt 25)"
proof -
  let ?l0 = "light\<lparr>data := (data light)\<lparr>name_to_code := None\<rparr>\<rparr>"
  let ?v = "[(''bright_value'', JInt 25)]"
  let ?ex = "\<lambda>(n::nat) (status::json dict). if n = 0 then (Inl ConnectionError :: exn + unit) else Inr ()"
  have h: "\<not> no_ip light" "\<not> no_ip ?l0"
    by (simp_all add: ex_defs)
  have a: "name_to_code (data ?l0) = None"
    by simp
  have m: "name_to_code (data light) = Some [(''switch_led'', ''1''), (''bright_value'', ''2'')]"
    by (simp add: ex_defs)
  have s: "state light = Some [(''switch_led'', JBool True), (''bright_value'', JInt 100)]"
    by (simp add: ex_defs)
  have t: "translate_keys [(''switch_led'', ''1''), (''bright_value'', ''2'')] ?v [] = Inr [(''2'', JInt 25)]"
    by simp
  have u: "dict_update [(''switch_led'', JBool True), (''bright_value'', JInt 100)] ?v
             = [(''switch_led'', JBool True), (''bright_value'', JInt 25)]"
    by (simp add: dict_update_def)
  have k: "''switch_led'' \<notin> fst ` set ?v" "distinct (map fst ?v)"
    "(''bright_value'', JInt 25) \<in> set ?v"
    by simp_all
  show ?thesis
    using h a m s t u k
      set_state_not_ready_retry_merge [OF h(2), where val = ?v and exch = "\<lambda>n status. Inr ()"]
      set_state_not_ready_retry_merge [OF h(1),
        where m = "[(''switch_led'', ''1''), (''bright_value'', ''2'')]" and val = ?v and exch = ?ex
          and st = "[(''switch_led'', JBool True), (''bright_value'', JInt 100)]"
          and k = "''switch_led''"]
      set_state_not_ready_retry_merge [OF h(1),
        where m = "[(''switch_led'', ''1''), (''bright_value'', ''2'')]" and val = ?v and exch = ?ex
          and st = "[(''switch_led'', JBool True), (''bright_value'', JInt 100)]"
          and k = "''bright_value''" and v = "JInt 25"]
    by simp
qed

section \<open>Properties of the discovery listener\<close>

lemma broadcast_all:
  "\<forall>kc \<in> set reg. snd kc d = None \<Longrightarrow> broadcast reg d log = (None, log @ delivered reg d)"
  by (induction reg arbitrary: log) (auto simp: delivered_def)

lemma broadcast_stop:
  "\<forall>kc \<in> set pre. snd kc d = None \<Longrightarrow> cb d = Some e \<Longrightarrow>
   broadcast (pre @ (key, cb) # post) d log = (Some e, log @ delivered (pre @ [(key, cb)]) d)"
  by (induction pre arbitrary: log) (auto simp: delivered_def)

lemma broadcast_log:
  "\<exists>n. snd (broadcast reg d log) = log @ delivered (take n reg) d"
proof (induction reg arbitrary: log)
  case Nil
  then show ?case by (simp add: delivered_def)
next
  case (Cons a reg)
  obtain k cb where a: "a = (k, cb)" by (cases a)
  show ?case
  proof (cases "cb d")
    case None
    from Cons.IH [of "log @ [(k, d)]"] obtain n
      where "snd (broadcast reg d (log @ [(k, d)])) = (log @ [(k, d)]) @ delivered (take n reg) d"
      by blast
    with None a have "snd (broadcast (a # reg) d log) = log @ delivered (take (Suc n) (a # reg)) d"
      by (simp add: delivered_def)
    then show ?thesis by blast
  next
    case (Some e)
    with a have "snd (broadcast (a # reg) d log) = log @ delivered (take (Suc 0) (a # reg)) d"
      by (simp add: delivered_def)
    then show ?thesis by blast
  qed
qed

lemma wrapper_seen:
  "d \<in> seen self \<Longrightarrow> on_device_found_wrapper self d = (None, self)"
  by (simp add: on_device_found_wrapper_def)

lemma wrapper_new_all:
  "d \<notin> seen self \<Longrightarrow> \<forall>kc \<in> set (on_device_found self). snd kc d = None \<Longrightarrow>
   on_device_found_wrapper self d =
     (None, self\<lparr>seen := insert d (seen self), calls := calls self @ delivered (on_device_found self) d\<rparr>)"
  by (simp add: on_device_found_wrapper_def broadcast_all)

lemma wrapper_new_stop:
  "d \<notin> seen self \<Longrightarrow> on_device_found self = pre @ (key, cb) # post \<Longrightarrow>
   \<forall>kc \<in> set pre. snd kc d = None \<Longrightarrow> cb d = Some e \<Longrightarrow>
   on_device_found_wrapper self d =
     (Some e, self\<lparr>seen := insert d (seen self),
                   calls := calls self @ delivered (pre @ [(key, cb)]) d\<rparr>)"
  by (simp add: on_device_found_wrapper_def broadcast_stop)

lemma wrapper_records: "d \<in> seen (snd (on_device_found_wrapper self d))"
  by (simp add: on_device_found_wrapper_def Let_def split: prod.splits)

lemma wrapper_registry [simp]:
  "on_device_found (snd (on_device_found_wrapper self d)) = on_device_found self"
  by (simp add: on_device_found_wrapper_def Let_def split: prod.splits)

lemma datagram_no_raise:
  "parse (drop 20 (take (length dgram - 8) dgram)) = Inr d \<Longrightarrow>
   fst (datagram_received parse self dgram) = None"
  by (simp add: datagram_received_def)

lemma datagram_state:
  "parse (drop 20 (take (length dgram - 8) dgram)) = Inr d \<Longrightarrow>
   snd (datagram_received parse self dgram) = snd (on_device_found_wrapper self d)"
  by (simp add: datagram_received_def)

lemma datagram_registry [simp]:
  "on_device_found (snd (datagram_received parse self dgram)) = on_device_found self"
  by (simp add: datagram_received_def Let_def split: sum.splits)

lemma datagram_twice:
  "snd (datagram_received parse (snd (datagram_received parse self dgram)) dgram)
     = snd (datagram_received parse self dgram)"
proof (cases "parse (drop 20 (take (length dgram - 8) dgram))")
  case (Inl e)
  then show ?thesis by (simp add: datagram_received_def)
next
  case (Inr d)
  then show ?thesis
    by (simp add: datagram_state wrapper_seen wrapper_records)
qed

lemma distinct_delivered:
  "distinct (map fst reg) \<Longrightarrow> distinct (delivered (take n reg) d)"
proof -
  assume "distinct (map fst reg)"
  then have "distinct (map fst (take n reg))"
    by (simp add: distinct_take take_map [symmetric])
  then show ?thesis
    by (simp add: delivered_def distinct_map inj_on_def comp_def)
qed

lemma wrapper_log_ok:
  assumes "distinct (map fst (on_device_found self))" "log_ok self"
  shows "log_ok (snd (on_device_found_wrapper self d))"
proof (cases "d \<in> seen self")
  case True
  with assms show ?thesis by (simp add: wrapper_seen)
next
  case False
  obtain n where n: "snd (broadcast (on_device_found self) d (calls self))
      = calls self @ delivered (take n (on_device_found self)) d"
    using broadcast_log by blast
  let ?D = "delivered (take n (on_device_found self)) d"
  have st: "snd (on_device_found_wrapper self d)
      = self\<lparr>seen := insert d (seen self), calls := calls self @ ?D\<rparr>"
    using False n by (auto simp: on_device_found_wrapper_def Let_def split: prod.splits)
  have sub: "snd ` set ?D \<subseteq> {d}"
    by (auto simp: delivered_def)
  have old: "snd ` set (calls self) \<subseteq> seen self" and dc: "distinct (calls self)"
    using assms(2) by (simp_all add: log_ok_def)
  have disj: "set (calls self) \<inter> set ?D = {}"
  proof (rule ccontr)
    assume "set (calls self) \<inter> set ?D \<noteq> {}"
    then obtain p where p: "p \<in> set (calls self)" "p \<in> set ?D"
      by blast
    from p(2) sub have "snd p = d" by blast
    moreover from p(1) old have "snd p \<in> seen self" by blast
    ultimately show False using False by simp
  qed
  have "distinct (calls self @ ?D)"
    using dc disj distinct_delivered [OF assms(1), of n d] by simp
  moreover have "snd ` set (calls self @ ?D) \<subseteq> insert d (seen self)"
    using sub old by auto
  ultimately show ?thesis
    by (simp add: st log_ok_def)
qed

lemma datagram_log_ok:
  "distinct (map fst (on_device_found self)) \<Longrightarrow> log_ok self \<Longrightarrow>
   log_ok (snd (datagram_received parse self dgram))"
  by (simp add: datagram_received_def Let_def wrapper_log_ok split: sum.splits)

lemma receive_all_log_ok:
  "distinct (map fst (on_device_found self)) \<Longrightarrow> log_ok self \<Longrightarrow>
   log_ok (receive_all parse self dgrams)"
  by (induction dgrams arbitrary: self) (simp_all add: datagram_log_ok)

text \<open>
  As claim C6 states it, a callback that raises does not keep the result from the other
  callbacks. In the code the loop over the callbacks has no handler of its own: with a
  failing callback registered before a working one, the working one is never called.
\<close>

theorem callback_isolation_counterexample:
  "on_device_found failing_first = [(''aB3xZ'', failing_callback), (''Qr7tY'', good_callback)]
   \<and> bulb_at ''192.168.1.20'' \<notin> seen failing_first
   \<and> good_callback (bulb_at ''192.168.1.20'') = None
   \<and> calls (snd (datagram_received example_parse failing_first (example_dgram 1)))
       = [(''aB3xZ'', bulb_at ''192.168.1.20'')]"
  by (simp add: scan_defs datagram_received_def on_device_found_wrapper_def)

text \<open>
  Claim C6, amended. For a datagram that parses to a result not seen before: no
  exception of a callback reaches the caller of \<open>datagram_received\<close>, and the result is
  recorded as seen; the callbacks are called in registration order, all of them when
  none raises, and otherwise up to and including the first one that raises, whose
  exception leaves the loop over the callbacks, the ones registered after it not being
  called.
\<close>

theorem callback_exception_swallowed_not_isolated:
  assumes "parse (drop 20 (take (length dgram - 8) dgram)) = Inr d" and "d \<notin> seen self"
  shows "fst (datagram_received parse self dgram) = None
       \<and> seen (snd (datagram_received parse self dgram)) = insert d (seen self)
       \<and> ((\<forall>kc \<in> set (on_device_found self). snd kc d = None) \<longrightarrow>
            calls (snd (datagram_received parse self dgram))
              = calls self @ delivered (on_device_found self) d)
       \<and> (on_device_found self = pre @ (key, cb) # post
            \<and> (\<forall>kc \<in> set pre. snd kc d = None) \<and> cb d = Some e \<longrightarrow>
            fst (on_device_found_wrapper self d) = Some e
            \<and> calls (snd (datagram_received parse self dgram))
              = calls self @ delivered (pre @ [(key, cb)]) d)"
proof (intro conjI impI)
  show "fst (datagram_received parse self dgram) = None"
    using assms(1) by (rule datagram_no_raise)
  show "seen (snd (datagram_received parse self dgram)) = insert d (seen self)"
    using assms by (simp add: datagram_state on_device_found_wrapper_def Let_def split: prod.splits)
next
  assume "\<forall>kc \<in> set (on_device_found self). snd kc d = None"
  with assms show "calls (snd (datagram_received parse self dgram))
      = calls self @ delivered (on_device_found self) d"
    by (simp add: datagram_state wrapper_new_all)
next
  assume a: "on_device_found self = pre @ (key, cb) # post
            \<and> (\<forall>kc \<in> set pre. snd kc d = None) \<and> cb d = Some e"
  then have w: "on_device_found_wrapper self d =
     (Some e, self\<lparr>seen := insert d (seen self),
                   calls := calls self @ delivered (pre @ [(key, cb)]) d\<rparr>)"
    using assms(2) by (intro wrapper_new_stop) simp_all
  then show "fst (on_device_found_wrapper self d) = Some e"
    by simp
  from w assms(1) show "calls (snd (datagram_received parse self dgram))
      = calls self @ delivered (pre @ [(key, cb)]) d"
    by (simp add: datagram_state)
qed

theorem callback_exception_swallowed_not_isolated_witness:
  "example_parse (drop 20 (take (length (example_dgram 1) - 8) (example_dgram 1)))
     = Inr (bulb_at ''192.168.1.20'')
   \<and> bulb_at ''192.168.1.20'' \<notin> seen two_listeners
   \<and> bulb_at ''192.168.1.20'' \<notin> seen failing_first
   \<and> fst (datagram_received example_parse failing_first (example_dgram 1)) = None
   \<and> fst (on_device_found_wrapper failing_first (bulb_at ''192.168.1.20'')) = Some OtherException
   \<and> calls (snd (datagram_received example_parse two_listeners (example_dgram 1)))
       = [(''aB3xZ'', bulb_at ''192.168.1.20''), (''Qr7tY'', bulb_at ''192.168.1.20'')]
   \<and> calls (snd (datagram_received example_parse failing_first (example_dgram 1)))
       = [(''aB3xZ'', bulb_at ''192.168.1.20'')]"
proof -
  have p: "example_parse (drop 20 (take (length (example_dgram 1) - 8) (example_dgram 1)))
     = Inr (bulb_at ''192.168.1.20'')"
    by (simp add: scan_defs)
  have n: "bulb_at ''192.168.1.20'' \<notin> seen two_listeners"
    "bulb_at ''192.168.1.20'' \<notin> seen failing_first"
    by (simp_all add: scan_defs)
  have r: "on_device_found two_listeners = [(''aB3xZ'', good_callback), (''Qr7tY'', good_callback)]"
    "on_device_found failing_first = [] @ (''aB3xZ'', failing_callback) # [(''Qr7tY'', good_callback)]"
    "calls two_listeners = []" "calls failing_first = []"
    by (simp_all add: two_listeners_def failing_first_def add_listener_def DeviceScanner_init_def)
  have c: "good_callback (bulb_at ''192.168.1.20'') = None"
    "failing_callback (bulb_at ''192.168.1.20'') = Some OtherException"
    by (simp_all add: good_callback_def failing_callback_def)
  show ?thesis
    using p n r c
      callback_exception_swallowed_not_isolated [where parse = example_parse
        and dgram = "example_dgram 1" and d = "bulb_at ''192.168.1.20''" and self = two_listeners,
        OF p n(1)]
      callback_exception_swallowed_not_isolated [where parse = example_parse
        and dgram = "example_dgram 1" and d = "bulb_at ''192.168.1.20''" and self = failing_first
        and pre = "[]" and key = "''aB3xZ''" and cb = failing_callback
        and post = "[(''Qr7tY'', good_callback)]" and e = OtherException, OF p n(2)]
    by (simp add: delivered_def)
qed

text \<open>
  As claim C7 states it, a result not seen before is broadcast to every registered
  callback, and two datagrams that differ only in the address deliver two results. With
  a failing callback registered first, the second callback receives neither.
\<close>

theorem dedup_broadcast_counterexample:
  "bulb_at ''192.168.1.20'' \<notin> seen failing_first
   \<and> bulb_at ''192.168.1.21'' \<notin> seen failing_first
   \<and> on_device_found failing_first = [(''aB3xZ'', failing_callback), (''Qr7tY'', good_callback)]
   \<and> calls (receive_all example_parse failing_first [example_dgram 1, example_dgram 2])
       = [(''aB3xZ'', bulb_at ''192.168.1.20''), (''aB3xZ'', bulb_at ''192.168.1.21'')]"
  by (simp add: scan_defs datagram_received_def on_device_found_wrapper_def bulb_at_def)

text \<open>
  Claim C7, amended. A result equal to one already seen is dropped: the scanner is
  unchanged and no callback is called. A result not seen before is recorded, and is
  handed to every registered callback when none of them raises on it. Feeding the same
  datagram twice leaves the scanner as feeding it once does, so that each callback
  receives its result exactly once when none raises; two datagrams whose results differ
  only in the address, both not seen before, give each callback the two results in
  order when none raises. Over any sequence of datagrams no callback is handed the same
  result twice.
\<close>

theorem dedup_delivery:
  "(d \<in> seen self \<longrightarrow> on_device_found_wrapper self d = (None, self))
   \<and> (d \<notin> seen self \<longrightarrow>
        d \<in> seen (snd (on_device_found_wrapper self d))
        \<and> ((\<forall>kc \<in> set (on_device_found self). snd kc d = None) \<longrightarrow>
             calls (snd (on_device_found_wrapper self d))
               = calls self @ delivered (on_device_found self) d))
   \<and> receive_all parse self [dgram, dgram] = receive_all parse self [dgram]
   \<and> (parse (drop 20 (take (length dgram - 8) dgram)) = Inr d \<and> d \<notin> seen self
        \<and> (\<forall>kc \<in> set (on_device_found self). snd kc d = None) \<longrightarrow>
        calls (receive_all parse self [dgram, dgram])
          = calls self @ delivered (on_device_found self) d)
   \<and> (parse (drop 20 (take (length dgram - 8) dgram)) = Inr (ScanResult ipA g a ab m enc pk v)
        \<and> parse (drop 20 (take (length dgramB - 8) dgramB)) = Inr (ScanResult ipB g a ab m enc pk v)
        \<and> ipA \<noteq> ipB
        \<and> ScanResult ipA g a ab m enc pk v \<notin> seen self
        \<and> ScanResult ipB g a ab m enc pk v \<notin> seen self
        \<and> (\<forall>kc \<in> set (on_device_found self).
              snd kc (ScanResult ipA g a ab m enc pk v) = None
              \<and> snd kc (ScanResult ipB g a ab m enc pk v) = None) \<longrightarrow>
        calls (receive_all parse self [dgram, dgramB])
          = calls self @ delivered (on_device_found self) (ScanResult ipA g a ab m enc pk v)
              @ delivered (on_device_found self) (ScanResult ipB g a ab m enc pk v))
   \<and> (distinct (map fst (on_device_found self)) \<and> log_ok self \<longrightarrow>
        log_ok (receive_all parse self dgrams))"
proof (intro conjI impI)
  assume "d \<in> seen self"
  then show "on_device_found_wrapper self d = (None, self)"
    by (rule wrapper_seen)
next
  show "d \<in> seen (snd (on_device_found_wrapper self d))"
    by (rule wrapper_records)
next
  assume "d \<notin> seen self" "\<forall>kc \<in> set (on_device_found self). snd kc d = None"
  then show "calls (snd (on_device_found_wrapper self d))
      = calls self @ delivered (on_device_found self) d"
    by (simp add: wrapper_new_all)
next
  show "receive_all parse self [dgram, dgram] = receive_all parse self [dgram]"
    by (simp add: datagram_twice)
next
  assume "parse (drop 20 (take (length dgram - 8) dgram)) = Inr d \<and> d \<notin> seen self
        \<and> (\<forall>kc \<in> set (on_device_found self). snd kc d = None)"
  then have "calls (receive_all parse self [dgram])
          = calls self @ delivered (on_device_found self) d"
    by (simp add: datagram_state wrapper_new_all)
  moreover have "receive_all parse self [dgram, dgram] = receive_all parse self [dgram]"
    by (simp add: datagram_twice)
  ultimately show "calls (receive_all parse self [dgram, dgram])
          = calls self @ delivered (on_device_found self) d"
    by simp
next
  let ?d1 = "ScanResult ipA g a ab m enc pk v" and ?d2 = "ScanResult ipB g a ab m enc pk v"
  assume a: "parse (drop 20 (take (length dgram - 8) dgram)) = Inr ?d1
        \<and> parse (drop 20 (take (length dgramB - 8) dgramB)) = Inr ?d2
        \<and> ipA \<noteq> ipB \<and> ?d1 \<notin> seen self \<and> ?d2 \<notin> seen self
        \<and> (\<forall>kc \<in> set (on_device_found self). snd kc ?d1 = None \<and> snd kc ?d2 = None)"
  let ?s1 = "self\<lparr>seen := insert ?d1 (seen self),
                   calls := calls self @ delivered (on_device_found self) ?d1\<rparr>"
  from a have s1: "snd (datagram_received parse self dgram) = ?s1"
    by (simp add: datagram_state wrapper_new_all)
  from a have "?d2 \<notin> seen ?s1" by auto
  moreover from a have "\<forall>kc \<in> set (on_device_found ?s1). snd kc ?d2 = None" by simp
  ultimately have "on_device_found_wrapper ?s1 ?d2 =
      (None, ?s1\<lparr>seen := insert ?d2 (seen ?s1),
                  calls := calls ?s1 @ delivered (on_device_found ?s1) ?d2\<rparr>)"
    by (rule wrapper_new_all)
  with a s1 show "calls (receive_all parse self [dgram, dgramB])
          = calls self @ delivered (on_device_found self) ?d1 @ delivered (on_device_found self) ?d2"
    by (simp add: datagram_state)
next
  assume "distinct (map fst (on_device_found self)) \<and> log_ok self"
  then show "log_ok (receive_all parse self dgrams)"
    by (simp add: receive_all_log_ok)
qed

theorem dedup_delivery_witness:
  "bulb_at ''192.168.1.20'' \<notin> seen two_listeners
   \<and> bulb_at ''192.168.1.20'' \<in> seen (snd (on_device_found_wrapper two_listeners (bulb_at ''192.168.1.20'')))
   \<and> on_device_found_wrapper (snd (on_device_found_wrapper two_listeners (bulb_at ''192.168.1.20'')))
        (bulb_at ''192.168.1.20'')
       = (None, snd (on_device_found_wrapper two_listeners (bulb_at ''192.168.1.20'')))
   \<and> calls (receive_all example_parse two_listeners [example_dgram 1, example_dgram 1])
       = [(''aB3xZ'', bulb_at ''192.168.1.20''), (''Qr7tY'', bulb_at ''192.168.1.20'')]
   \<and> calls (receive_all example_parse two_listeners [example_dgram 1, example_dgram 2])
       = [(''aB3xZ'', bulb_at ''192.168.1.20''), (''Qr7tY'', bulb_at ''192.168.1.20''),
          (''aB3xZ'', bulb_at ''192.168.1.21''), (''Qr7tY'', bulb_at ''192.168.1.21'')]
   \<and> log_ok (receive_all example_parse two_listeners
        [example_dgram 1, example_dgram 2, example_dgram 1])"
proof -
  let ?d1 = "bulb_at ''192.168.1.20''" and ?d2 = "bulb_at ''192.168.1.21''"
  have p: "example_parse (drop 20 (take (length (example_dgram 1) - 8) (example_dgram 1))) = Inr ?d1"
    "example_parse (drop 20 (take (length (example_dgram 2) - 8) (example_dgram 2))) = Inr ?d2"
    by (simp_all add: scan_defs)
  have n: "?d1 \<notin> seen two_listeners" "?d2 \<notin> seen two_listeners"
    by (simp_all add: scan_defs)
  have r: "on_device_found two_listeners = [(''aB3xZ'', good_callback), (''Qr7tY'', good_callback)]"
    "calls two_listeners = []"
    by (simp_all add: two_listeners_def add_listener_def DeviceScanner_init_def)
  have c: "good_callback ?d1 = None" "good_callback ?d2 = None"
    by (simp_all add: good_callback_def)
  have l: "log_ok two_listeners"
    by (simp add: log_ok_def r)
  have s: "?d1 \<in> seen (snd (on_device_found_wrapper two_listeners ?d1))"
    using dedup_delivery [where self = two_listeners and d = ?d1] n by simp
  note T = dedup_delivery [where self = two_listeners and d = ?d1 and parse = example_parse
        and dgram = "example_dgram 1" and dgramB = "example_dgram 2"
        and ipA = "''192.168.1.20''" and ipB = "''192.168.1.21''"
        and g = "''bf0123456789abcdefgh''" and a = 2 and ab = 0 and m = 0 and enc = True
        and pk = "''keyabcdefgh12345''" and v = "''3.3''"
        and dgrams = "[example_dgram 1, example_dgram 2, example_dgram 1]"]
  note T' = T [THEN conjunct2, THEN conjunct2, THEN conjunct2]
  have twice: "calls (receive_all example_parse two_listeners [example_dgram 1, example_dgram 1])
       = [(''aB3xZ'', ?d1), (''Qr7tY'', ?d1)]"
    using T' [THEN conjunct1] p n r c by (simp add: delivered_def del: receive_all.simps)
  have two: "calls (receive_all example_parse two_listeners [example_dgram 1, example_dgram 2])
       = [(''aB3xZ'', ?d1), (''Qr7tY'', ?d1), (''aB3xZ'', ?d2), (''Qr7tY'', ?d2)]"
    using T' [THEN conjunct2, THEN conjunct1] p n r c
    by (simp add: delivered_def bulb_at_def del: receive_all.simps)
  have inv: "log_ok (receive_all example_parse two_listeners
        [example_dgram 1, example_dgram 2, example_dgram 1])"
    using T' [THEN conjunct2, THEN conjunct2] r l by (simp del: receive_all.simps)
  have dropped: "on_device_found_wrapper (snd (on_device_found_wrapper two_listeners ?d1)) ?d1
       = (None, snd (on_device_found_wrapper two_listeners ?d1))"
    using dedup_delivery [where self = "snd (on_device_found_wrapper two_listeners ?d1)"
        and d = ?d1, THEN conjunct1] s by simp
  from n(1) s dropped twice two inv show ?thesis
    by (intro conjI)
qed

section \<open>Properties of the frame codec\<close>

subsection \<open>Packing\<close>

lemma and_then_Inr [simp]: "and_then (Inr x) f = f x"
  by (simp add: and_then_def)

lemma and_then_Inl [simp]: "and_then (Inl e) f = Inl e"
  by (simp add: and_then_def)

lemma length_be32 [simp]: "length (be32 x) = 4"
  by (simp add: be32_def)

lemma uint_byte_of_int: "uint (word_of_int y :: byte) = y mod 256"
  by (simp add: uint_word_of_int)

lemma be_int_be32:
  assumes "0 \<le> x" "x < 2 ^ 32"
  shows "be_int (be32 x) = x"
proof -
  define a where "a = x div 2 ^ 8"
  define b where "b = x div 2 ^ 16"
  define c where "c = x div 2 ^ 24"
  have b: "b = a div 256"
    unfolding a_def b_def by (simp add: zdiv_zmult2_eq [symmetric])
  have c: "c = b div 256"
    unfolding b_def c_def by (simp add: zdiv_zmult2_eq [symmetric])
  have "0 \<le> c"
    using assms unfolding c_def by (simp add: pos_imp_zdiv_nonneg_iff)
  moreover have "c \<le> (2 ^ 32 - 1) div 2 ^ 24"
    using assms unfolding c_def by (intro zdiv_mono1) simp_all
  then have "c < 256"
    by simp
  ultimately have "0 \<le> c" "c < 256"
    by simp_all
  then have cm: "c mod 256 = c"
    by simp
  have "be_int (be32 x) = ((c mod 256 * 256 + b mod 256) * 256 + a mod 256) * 256 + x mod 256"
    by (simp add: be_int_def be32_def uint_byte_of_int a_def b_def c_def)
  also have "c mod 256 * 256 + b mod 256 = b"
    using cm unfolding c by simp
  also have "b * 256 + a mod 256 = a"
    unfolding b by simp
  also have "a * 256 + x mod 256 = x"
    unfolding a_def by simp
  finally show ?thesis .
qed

lemma crc32_bounds: "0 \<le> crc32 bs" "crc32 bs < 4294967296" "crc32 bs mod 4294967296 = crc32 bs"
proof -
  show "0 \<le> crc32 bs"
    by (simp add: crc32_def)
  show "crc32 bs < 4294967296"
    using uint_bounded [of "NOT (foldl crc32_byte 0xFFFFFFFF bs)"] by (simp add: crc32_def)
  then show "crc32 bs mod 4294967296 = crc32 bs"
    by (simp add: crc32_def)
qed

lemma pack_message_ok:
  assumes "0 \<le> s" "s < 2 ^ 32" "0 \<le> c" "c < 2 ^ 32" "int (length p) + 8 < 2 ^ 32"
  shows "pack_message (TuyaRequest s c p) =
     Inr (be32 PREFIX_VALUE @ be32 s @ be32 c @ be32 (int (length p) + 8) @ p
          @ be32 (crc32 (be32 PREFIX_VALUE @ be32 s @ be32 c @ be32 (int (length p) + 8) @ p)
                    mod 2 ^ 32)
          @ be32 SUFFIX_VALUE)"
  using assms
  by (simp add: pack_message_def pack_I_def PREFIX_VALUE_def SUFFIX_VALUE_def
      MESSAGE_END_size_def Let_def)

lemma unpack_Is_5:
  "length bs = 20 \<Longrightarrow>
   unpack_Is 5 bs = Inr [be_int (take 4 bs), be_int (take 4 (drop 4 bs)),
     be_int (take 4 (drop 8 bs)), be_int (take 4 (drop 12 bs)), be_int (take 4 (drop 16 bs))]"
  by (simp add: eval_nat_numeral)

lemma unpack_Is_2:
  "length bs = 8 \<Longrightarrow> unpack_Is 2 bs = Inr [be_int (take 4 bs), be_int (take 4 (drop 4 bs))]"
  by (simp add: eval_nat_numeral)

lemma unpack_message_ok:
  assumes "20 \<le> length dat"
  shows "unpack_message dat =
     Inr (TuyaResponse (be_int (take 4 (drop 4 dat))) (be_int (take 4 (drop 8 dat)))
            (drop 20 (take (length dat - 8) dat)) (be_int (take 4 (drop 16 dat)))
            (be_int (take 4 (drop (length dat - 8) dat))))"
proof -
  have h: "length (take 20 dat) = 20" and f: "length (drop (length dat - 8) dat) = 8"
    using assms by simp_all
  show ?thesis
    by (simp add: unpack_message_def Let_def unpack_Is_5 [OF h] unpack_Is_2 [OF f] take_drop)
qed

lemma control_text:
  "json_text example_lib (fill_template control_template example_id ''1600000000''
      (Some [(''1'', JBool True)]))
   = ''{\"devId\":\"bf0123456789abcdefgh\",\"uid\":\"bf0123456789abcdefgh\",\"t\":\"1600000000\",\"dps\":{\"1\":true}}''"
  by (simp add: json_text_def example_lib_def fill_template_def has_key_def control_template_def
      example_id_def Let_def)

lemma query_text:
  "json_text example_lib (fill_template query_template example_id ''1600000000'' None)
   = ''{\"gwId\":\"bf0123456789abcdefgh\",\"devId\":\"bf0123456789abcdefgh\",\"uid\":\"bf0123456789abcdefgh\",\"t\":\"1600000000\"}''"
  by (simp add: json_text_def example_lib_def fill_template_def has_key_def query_template_def
      example_id_def Let_def)

lemma example_lengths:
  "length example_control_message = 95" "length example_query_message = 108"
  "length (encode example_key) = 16"
  by (simp_all add: example_control_message_def example_query_message_def json_message_def
      control_text query_text encode_def example_key_def)

text \<open>
  Claim C4. For a sequence number and a command code that fit in 32 bits and a payload
  whose length plus 8 does, \<open>_pack_message\<close> returns a frame of 16 + length + 8 bytes:
  the big-endian words \<open>0x000055AA\<close>, the sequence number, the command code and the
  payload length plus 8; then the payload; then the big-endian CRC32 of everything before
  it, from the prefix through the payload; then the big-endian word \<open>0x0000AA55\<close>.
\<close>

theorem pack_message_layout:
  assumes "0 \<le> s" "s < 2 ^ 32" "0 \<le> c" "c < 2 ^ 32" "int (length p) + 8 < 2 ^ 32"
  shows "\<exists>frame. pack_message (TuyaRequest s c p) = Inr frame
     \<and> length frame = 16 + length p + 8
     \<and> take 4 frame = [0, 0, 0x55, 0xAA]
     \<and> be_int (take 4 frame) = 0x000055AA
     \<and> be_int (take 4 (drop 4 frame)) = s
     \<and> be_int (take 4 (drop 8 frame)) = c
     \<and> be_int (take 4 (drop 12 frame)) = int (length p) + 8
     \<and> take (length p) (drop 16 frame) = p
     \<and> be_int (take 4 (drop (16 + length p) frame)) = crc32 (take (16 + length p) frame)
     \<and> drop (20 + length p) frame = [0, 0, 0xAA, 0x55]
     \<and> be_int (drop (20 + length p) frame) = 0x0000AA55"
proof -
  let ?h = "be32 PREFIX_VALUE @ be32 s @ be32 c @ be32 (int (length p) + 8)"
  let ?frame = "?h @ p @ be32 (crc32 (?h @ p) mod 2 ^ 32) @ be32 SUFFIX_VALUE"
  have f: "pack_message (TuyaRequest s c p) = Inr ?frame"
    using pack_message_ok [OF assms] by simp
  have len: "length ?frame = 16 + length p + 8"
    by simp
  have pre: "be32 PREFIX_VALUE = [0, 0, 0x55, 0xAA]" and suf: "be32 SUFFIX_VALUE = [0, 0, 0xAA, 0x55]"
    by (simp_all add: be32_def PREFIX_VALUE_def SUFFIX_VALUE_def)
  have t0: "take 4 ?frame = [0, 0, 0x55, 0xAA]"
    by (simp add: pre)
  have b0: "be_int (take 4 ?frame) = 0x000055AA"
    unfolding t0 by (simp add: be_int_def)
  have b1: "be_int (take 4 (drop 4 ?frame)) = s"
    using assms by (simp add: be_int_be32)
  have b2: "be_int (take 4 (drop 8 ?frame)) = c"
    using assms by (simp add: be_int_be32)
  have b3: "be_int (take 4 (drop 12 ?frame)) = int (length p) + 8"
    using assms by (simp add: be_int_be32)
  have pl: "take (length p) (drop 16 ?frame) = p"
    by simp
  have cr: "be_int (take 4 (drop (16 + length p) ?frame)) = crc32 (take (16 + length p) ?frame)"
    by (simp add: be_int_be32 crc32_bounds)
  have su: "drop (20 + length p) ?frame = [0, 0, 0xAA, 0x55]"
    by (simp add: suf)
  have sb: "be_int (drop (20 + length p) ?frame) = 0x0000AA55"
    unfolding su by (simp add: be_int_def)
  from f len t0 b0 b1 b2 b3 pl cr su sb show ?thesis
    by blast
qed

theorem pack_message_layout_witness:
  "(0::int) \<le> 1 \<and> (1::int) < 2 ^ 32 \<and> (0::int) \<le> 10 \<and> (10::int) < 2 ^ 32
   \<and> int (length example_query_message) + 8 < 2 ^ 32
   \<and> (\<exists>frame. pack_message (TuyaRequest 1 10 example_query_message) = Inr frame
        \<and> length frame = 132
        \<and> take 4 frame = [0, 0, 0x55, 0xAA]
        \<and> be_int (take 4 (drop 4 frame)) = 1
        \<and> be_int (take 4 (drop 8 frame)) = 10
        \<and> be_int (take 4 (drop 12 frame)) = 116
        \<and> take 108 (drop 16 frame) = example_query_message
        \<and> be_int (take 4 (drop 124 frame)) = crc32 (take 124 frame)
        \<and> drop 128 frame = [0, 0, 0xAA, 0x55])"
  using pack_message_layout [of 1 10 example_query_message]
  by (simp add: example_lengths) blast

subsection \<open>Encoding\<close>

lemma command_table_cases:
  assumes "map_of TUYA_COMMANDS_default command = Some (hb, tmpl)"
  shows "(command = AP_CONFIG \<and> hb = ''01'') \<or> (command = CONTROL \<and> hb = ''07'')
       \<or> (command = STATUS \<and> hb = ''08'') \<or> (command = HEART_BEAT \<and> hb = ''09'')
       \<or> (command = DP_QUERY \<and> hb = ''0a'') \<or> (command = CONTROL_NEW \<and> hb = ''0d'')
       \<or> (command = DP_QUERY_NEW \<and> hb = ''0f'') \<or> (command = UPDATEDPS \<and> hb = ''12'')"
  using assms by (auto simp: TUYA_COMMANDS_default_def command_defs split: if_splits)

lemma int_base16_table:
  "int_base16 ''01'' = Inr 1" "int_base16 ''07'' = Inr 7" "int_base16 ''08'' = Inr 8"
  "int_base16 ''09'' = Inr 9" "int_base16 ''0a'' = Inr 10" "int_base16 ''0d'' = Inr 13"
  "int_base16 ''0f'' = Inr 15" "int_base16 ''12'' = Inr 18"
  by (simp_all add: int_base16_def hex_digit_def)

lemma command_code:
  assumes "map_of TUYA_COMMANDS_default command = Some (hb, tmpl)"
  shows "\<exists>c. int_base16 hb = Inr c \<and> 0 \<le> c \<and> c < 2 ^ 32"
  using command_table_cases [OF assms] by (auto simp: int_base16_table)

lemma generate_payload_unfold:
  assumes t: "map_of TUYA_COMMANDS_default command = Some (hb, tmpl)" and n: "hb \<noteq> ''0d''"
  shows "generate_payload L command ident key vers sq ts dat =
     and_then (if vers = ''3.3''
               then AESCipher_encrypt L (encode key)
                      (json_message L (fill_template tmpl ident ts dat)) False
               else Inr (json_message L (fill_template tmpl ident ts dat)))
       (\<lambda>p. and_then (int_base16 hb)
          (\<lambda>c. pack_message (TuyaRequest sq c
                  (if command = DP_QUERY \<or> command = UPDATEDPS then p
                   else PROTOCOL_33_HEADER @ p))))"
  using command_table_cases [OF t] n t
  by (elim disjE conjE; simp add: generate_payload_def Let_def command_defs)

lemma control_entry:
  "map_of TUYA_COMMANDS_default CONTROL
     = Some (''07'', [(''devId'', JStr []), (''uid'', JStr []), (''t'', JStr [])])"
  by (simp add: TUYA_COMMANDS_default_def command_defs)

lemma header_33: "PROTOCOL_33_HEADER = encode ''3.3'' @ replicate 12 0" "length PROTOCOL_33_HEADER = 15"
  by (simp_all add: PROTOCOL_33_HEADER_def PROTOCOL_VERSION_BYTES_33_def encode_def)

lemma pad_length: "length (pad m) mod 16 = 0" "length m < length (pad m)" "length (pad m) \<le> length m + 16"
proof -
  have "length (pad m) = length m + (16 - length m mod 16)"
    by (simp add: pad_def Let_def)
  then show "length (pad m) mod 16 = 0" "length m < length (pad m)" "length (pad m) \<le> length m + 16"
    by presburger+
qed

lemma unpad_pad: "unpad (pad m) = Inr m"
proof -
  define n where "n = 16 - length m mod 16"
  have n: "0 < n" "n \<le> 16"
    unfolding n_def by simp_all
  have p: "pad m = m @ replicate n (of_nat n)"
    by (simp add: pad_def n_def Let_def)
  have l: "last (pad m) = (of_nat n :: byte)"
    using n by (simp add: p)
  have u: "unat (of_nat n :: byte) = n"
    using n by (simp add: unat_of_nat)
  show ?thesis
    using n by (simp add: unpad_def l u Let_def) (simp add: p)
qed

lemma example_entries:
  "map_of TUYA_COMMANDS_default CONTROL = Some (''07'', control_template)"
  "map_of TUYA_COMMANDS_default DP_QUERY = Some (''0a'', query_template)"
  "map_of TUYA_COMMANDS_default CONTROL_NEW = Some (''0d'', control_template)"
  by (simp_all add: TUYA_COMMANDS_default_def command_defs control_template_def query_template_def)

lemma example_cipher_pad:
  "aes_ecb_encrypt example_lib (encode example_key) (pad m) = Inr (map (\<lambda>b. NOT b) (pad m))"
  "aes_ecb_decrypt example_lib (encode example_key) (map (\<lambda>b. NOT b) (pad m)) = Inr (pad m)"
  by (simp_all add: example_lib_def example_cipher_def example_lengths pad_length comp_def)

lemma version_bytes:
  "PROTOCOL_VERSION_BYTES_31 = [0x33, 0x2E, 0x31]" "PROTOCOL_VERSION_BYTES_33 = [0x33, 0x2E, 0x33]"
  "PROTOCOL_33_HEADER = [0x33, 0x2E, 0x33, 0, 0, 0, 0, 0, 0, 0, 0, 0, 0, 0, 0]"
  "encode ''{'' = [0x7B]"
  by (simp_all add: PROTOCOL_VERSION_BYTES_31_def PROTOCOL_VERSION_BYTES_33_def
      PROTOCOL_33_HEADER_def encode_def eval_nat_numeral)

text \<open>
  Claim C1, as the code has it. Under version "3.1" the payload of the control command
  is the 15-byte header of version 3.3 followed by the plain JSON: the first test of
  \<open>command_hb\<close> succeeds for \<open>"07"\<close>, so the \<open>elif\<close> that encrypts, encodes in base64 and
  signs with MD5 is never reached, whatever the device id, the key and the data.
\<close>

theorem generate_payload_v31_control_plain:
  "generate_payload L CONTROL ident key ''3.1'' sq ts dat =
     pack_message (TuyaRequest sq 7
       (PROTOCOL_33_HEADER
        @ json_message L
            (fill_template [(''devId'', JStr []), (''uid'', JStr []), (''t'', JStr [])]
               ident ts dat)))"
  by (subst generate_payload_unfold [OF control_entry]) (simp_all add: int_base16_table command_defs)

text \<open>
  As claim C3 states it, the header is 16 bytes long and every command other than the
  two queries carries it. The header constant has 15 bytes, the ASCII bytes of "3.3" and
  12 zero bytes, and the command \<open>CONTROL_NEW\<close> produces no payload at all: the encoder
  raises \<open>NotImplementedError\<close> for it.
\<close>

theorem header_length_counterexample:
  "length PROTOCOL_33_HEADER = 15
   \<and> PROTOCOL_33_HEADER = [0x33, 0x2E, 0x33, 0, 0, 0, 0, 0, 0, 0, 0, 0, 0, 0, 0]
   \<and> generate_payload example_lib CONTROL_NEW example_id example_key ''3.3'' 1 ''1600000000''
        (Some [(''1'', JBool True)]) = Inl NotImplementedError"
  by (simp add: version_bytes generate_payload_def example_entries Let_def)

text \<open>
  Claim C3, amended. Under version "3.3", for every command of the table other than
  \<open>CONTROL_NEW\<close> and every key that the cipher accepts, the payload is the AES-ECB
  encryption of the padded JSON message, not encoded in base64: bare for the data-point
  query and the refresh request, and after the 15-byte header, "3.3" followed by 12 zero
  bytes, for every other command. The padding makes the length a multiple of 16 and is
  undone by \<open>_unpad\<close>. When the sequence number fits in 32 bits the encoder returns a
  frame whose bytes between the 16-byte frame header and the 8-byte footer are that
  payload.
\<close>

theorem generate_payload_v33_encrypted:
  assumes t: "map_of TUYA_COMMANDS_default command = Some (hb, tmpl)"
    and n: "command \<noteq> CONTROL_NEW"
    and e: "aes_ecb_encrypt L (encode key) (pad (json_message L (fill_template tmpl ident ts dat)))
              = Inr crypted"
  shows "(\<exists>c. int_base16 hb = Inr c
            \<and> generate_payload L command ident key ''3.3'' sq ts dat =
                pack_message (TuyaRequest sq c
                  (if command = DP_QUERY \<or> command = UPDATEDPS then crypted
                   else PROTOCOL_33_HEADER @ crypted)))
       \<and> PROTOCOL_33_HEADER = encode ''3.3'' @ replicate 12 0
       \<and> length PROTOCOL_33_HEADER = 15
       \<and> length (pad (json_message L (fill_template tmpl ident ts dat))) mod 16 = 0
       \<and> unpad (pad (json_message L (fill_template tmpl ident ts dat)))
            = Inr (json_message L (fill_template tmpl ident ts dat))
       \<and> (0 \<le> sq \<and> sq < 2 ^ 32 \<and> int (length crypted) + 23 < 2 ^ 32 \<longrightarrow>
            (\<exists>frame. generate_payload L command ident key ''3.3'' sq ts dat = Inr frame
               \<and> drop 16 (take (length frame - 8) frame) =
                   (if command = DP_QUERY \<or> command = UPDATEDPS then crypted
                    else PROTOCOL_33_HEADER @ crypted)))"
proof -
  let ?p = "if command = DP_QUERY \<or> command = UPDATEDPS then crypted
            else PROTOCOL_33_HEADER @ crypted"
  from command_code [OF t] obtain c where c: "int_base16 hb = Inr c" "0 \<le> c" "c < 2 ^ 32"
    by blast
  from command_table_cases [OF t] n have hb: "hb \<noteq> ''0d''"
    by (auto simp: command_defs)
  have g: "generate_payload L command ident key ''3.3'' sq ts dat
      = pack_message (TuyaRequest sq c ?p)"
    by (subst generate_payload_unfold [OF t hb]) (simp add: AESCipher_encrypt_def e c)
  have fr: "\<exists>frame. generate_payload L command ident key ''3.3'' sq ts dat = Inr frame
               \<and> drop 16 (take (length frame - 8) frame) = ?p"
    if r: "0 \<le> sq \<and> sq < 2 ^ 32 \<and> int (length crypted) + 23 < 2 ^ 32"
  proof -
    from r have l: "int (length ?p) + 8 < 2 ^ 32"
      by (simp add: header_33(2))
    from r have "0 \<le> sq" "sq < 2 ^ 32"
      by simp_all
    from pack_message_ok [OF this c(2,3) l] show ?thesis
      unfolding g by simp
  qed
  from c(1) g have "\<exists>c. int_base16 hb = Inr c
      \<and> generate_payload L command ident key ''3.3'' sq ts dat = pack_message (TuyaRequest sq c ?p)"
    by blast
  with fr header_33 pad_length(1) unpad_pad show ?thesis
    by (intro conjI impI) blast+
qed

theorem generate_payload_v33_encrypted_witness:
  "map_of TUYA_COMMANDS_default CONTROL = Some (''07'', control_template)
   \<and> map_of TUYA_COMMANDS_default DP_QUERY = Some (''0a'', query_template)
   \<and> CONTROL \<noteq> CONTROL_NEW \<and> DP_QUERY \<noteq> CONTROL_NEW
   \<and> aes_ecb_encrypt example_lib (encode example_key) (pad example_control_message)
       = Inr (map (\<lambda>b. NOT b) (pad example_control_message))
   \<and> generate_payload example_lib CONTROL example_id example_key ''3.3'' 1 ''1600000000''
        (Some [(''1'', JBool True)])
       = pack_message (TuyaRequest 1 7
           (PROTOCOL_33_HEADER @ map (\<lambda>b. NOT b) (pad example_control_message)))
   \<and> generate_payload example_lib DP_QUERY example_id example_key ''3.3'' 1 ''1600000000'' None
       = pack_message (TuyaRequest 1 10 (map (\<lambda>b. NOT b) (pad example_query_message)))
   \<and> (\<exists>frame. generate_payload example_lib CONTROL example_id example_key ''3.3'' 1
                 ''1600000000'' (Some [(''1'', JBool True)]) = Inr frame
          \<and> drop 16 (take (length frame - 8) frame)
              = PROTOCOL_33_HEADER @ map (\<lambda>b. NOT b) (pad example_control_message))"
proof -
  have n: "CONTROL \<noteq> CONTROL_NEW" "DP_QUERY \<noteq> CONTROL_NEW" "CONTROL \<noteq> DP_QUERY"
    "CONTROL \<noteq> UPDATEDPS"
    by (simp_all add: command_defs)
  have l: "int (length (map (\<lambda>b. NOT b) (pad example_control_message))) + 23 < 2 ^ 32"
    using pad_length(3) [of example_control_message] by (simp add: example_lengths)
  note A = generate_payload_v33_encrypted [OF example_entries(1) n(1),
      where L = example_lib and key = example_key and ident = example_id
        and ts = "''1600000000''" and dat = "Some [(''1'', JBool True)]" and sq = 1,
      folded example_control_message_def, OF example_cipher_pad(1)]
  note B = generate_payload_v33_encrypted [OF example_entries(2) n(2),
      where L = example_lib and key = example_key and ident = example_id
        and ts = "''1600000000''" and dat = None and sq = 1,
      folded example_query_message_def, OF example_cipher_pad(1)]
  from A n l have a1: "generate_payload example_lib CONTROL example_id example_key ''3.3'' 1 ''1600000000''
        (Some [(''1'', JBool True)])
       = pack_message (TuyaRequest 1 7
           (PROTOCOL_33_HEADER @ map (\<lambda>b. NOT b) (pad example_control_message)))"
    by (auto simp: int_base16_table)
  from A n l have a2: "\<exists>frame. generate_payload example_lib CONTROL example_id example_key ''3.3'' 1
                 ''1600000000'' (Some [(''1'', JBool True)]) = Inr frame
          \<and> drop 16 (take (length frame - 8) frame)
              = PROTOCOL_33_HEADER @ map (\<lambda>b. NOT b) (pad example_control_message)"
    by simp
  from B have b1: "generate_payload example_lib DP_QUERY example_id example_key ''3.3'' 1 ''1600000000'' None
       = pack_message (TuyaRequest 1 10 (map (\<lambda>b. NOT b) (pad example_query_message)))"
    by (auto simp: int_base16_table)
  from example_entries n example_cipher_pad(1) a1 a2 b1 show ?thesis
    by (intro conjI)
qed

subsection \<open>Decoding\<close>

lemma decode_payload_header_33:
  assumes "crypted \<noteq> []" "aes_ecb_decrypt L (encode key) crypted = Inr (pad m)"
    "utf8_decode L m = Inr text"
  shows "decode_payload L (PROTOCOL_33_HEADER @ crypted) key ''3.3'' = Inr text"
  using assms
  by (simp add: decode_payload_def Let_def version_bytes AESCipher_decrypt_def unpad_pad)

lemma decode_payload_bare_33:
  assumes "crypted \<noteq> []" "aes_ecb_decrypt L (encode key) crypted = Inr (pad m)"
    "utf8_decode L m = Inr text"
    "\<not> prefix PROTOCOL_VERSION_BYTES_31 crypted" "\<not> prefix PROTOCOL_VERSION_BYTES_33 crypted"
  shows "decode_payload L crypted key ''3.3'' = Inr text"
  using assms
  by (simp add: decode_payload_def Let_def AESCipher_decrypt_def unpad_pad)

lemma decode_payload_plain:
  assumes "vers \<noteq> ''3.3''" "prefix (encode ''{'') m" "utf8_decode L m = Inr text"
  shows "decode_payload L m key vers = Inr text"
proof -
  from assms(2) obtain rest where m: "m = 0x7B # rest"
    by (auto simp: version_bytes prefix_def)
  show ?thesis
    using assms by (simp add: decode_payload_def Let_def m version_bytes)
qed

lemma request_frame_facts:
  assumes "0 \<le> s" "s < 2 ^ 32" "0 \<le> c" "c < 2 ^ 32" "int (length p) + 8 < 2 ^ 32"
    and "length rcb = 4"
  shows "\<exists>frame. pack_message (TuyaRequest s c p) = Inr frame
     \<and> drop 16 (take (length frame - 8) frame) = p
     \<and> (\<exists>resp. unpack_message frame = Inr resp \<and> seqno' resp = s \<and> cmd' resp = c
           \<and> payload' resp = drop 4 p)
     \<and> (\<exists>resp. unpack_message (take 16 frame @ rcb @ drop 16 frame) = Inr resp
           \<and> seqno' resp = s \<and> cmd' resp = c \<and> payload' resp = p)"
proof -
  let ?h = "be32 PREFIX_VALUE @ be32 s @ be32 c @ be32 (int (length p) + 8)"
  let ?f = "be32 (crc32 (?h @ p) mod 2 ^ 32) @ be32 SUFFIX_VALUE"
  let ?frame = "?h @ p @ ?f"
  have f: "pack_message (TuyaRequest s c p) = Inr ?frame"
    using pack_message_ok [OF assms(1-5)] by simp
  have sl: "drop 16 (take (length ?frame - 8) ?frame) = p"
    by simp
  have u1: "unpack_message ?frame
      = Inr (TuyaResponse (be_int (take 4 (drop 4 ?frame))) (be_int (take 4 (drop 8 ?frame)))
            (drop 20 (take (length ?frame - 8) ?frame)) (be_int (take 4 (drop 16 ?frame)))
            (be_int (take 4 (drop (length ?frame - 8) ?frame))))"
    by (rule unpack_message_ok) simp
  have a1: "be_int (take 4 (drop 4 ?frame)) = s" "be_int (take 4 (drop 8 ?frame)) = c"
    using assms by (simp_all add: be_int_be32)
  have p1: "drop 20 (take (length ?frame - 8) ?frame) = drop 4 p"
    by simp
  let ?resp = "take 16 ?frame @ rcb @ drop 16 ?frame"
  have u2: "unpack_message ?resp
      = Inr (TuyaResponse (be_int (take 4 (drop 4 ?resp))) (be_int (take 4 (drop 8 ?resp)))
            (drop 20 (take (length ?resp - 8) ?resp)) (be_int (take 4 (drop 16 ?resp)))
            (be_int (take 4 (drop (length ?resp - 8) ?resp))))"
    by (rule unpack_message_ok) simp
  have a2: "be_int (take 4 (drop 4 ?resp)) = s" "be_int (take 4 (drop 8 ?resp)) = c"
    using assms by (simp_all add: be_int_be32)
  have p2: "drop 20 (take (length ?resp - 8) ?resp) = p"
    using assms(6) by simp
  have e1: "\<exists>resp. unpack_message ?frame = Inr resp \<and> seqno' resp = s \<and> cmd' resp = c
           \<and> payload' resp = drop 4 p"
    unfolding u1 a1 p1 by simp
  have e2: "\<exists>resp. unpack_message ?resp = Inr resp \<and> seqno' resp = s \<and> cmd' resp = c
           \<and> payload' resp = p"
    unfolding u2 a2 p2 by simp
  from f sl e1 e2 show ?thesis
    by blast
qed

lemma round_trip_of_payload:
  assumes g: "generate_payload L command ident key vers sq ts dat
                = pack_message (TuyaRequest sq c p)"
    and r: "0 \<le> sq" "sq < 2 ^ 32" "0 \<le> c" "c < 2 ^ 32" "int (length p) + 8 < 2 ^ 32"
    and rcb: "length rcb = 4"
    and d: "decode_payload L p key vers = Inr text" "text \<noteq> []"
    and j: "json_loads L text = Inr v"
  shows "\<exists>frame. generate_payload L command ident key vers sq ts dat = Inr frame
     \<and> decode_payload L (drop 16 (take (length frame - 8) frame)) key vers = Inr text
     \<and> data_received L (take 16 frame @ rcb @ drop 16 frame) key vers = Inr (Some v)
     \<and> (\<exists>resp. unpack_message frame = Inr resp
           \<and> payload' resp = drop 4 (drop 16 (take (length frame - 8) frame)))"
proof -
  from request_frame_facts [OF r rcb] obtain frame resp1 resp2
    where f: "pack_message (TuyaRequest sq c p) = Inr frame"
      and sl: "drop 16 (take (length frame - 8) frame) = p"
      and u1: "unpack_message frame = Inr resp1" "payload' resp1 = drop 4 p"
      and u2: "unpack_message (take 16 frame @ rcb @ drop 16 frame) = Inr resp2" "payload' resp2 = p"
    by blast
  have dr: "data_received L (take 16 frame @ rcb @ drop 16 frame) key vers = Inr (Some v)"
    by (simp add: data_received_def u2 d j)
  have d': "decode_payload L (drop 16 (take (length frame - 8) frame)) key vers = Inr text"
    unfolding sl by (rule d)
  have e: "\<exists>resp. unpack_message frame = Inr resp
           \<and> payload' resp = drop 4 (drop 16 (take (length frame - 8) frame))"
    unfolding sl using u1 by blast
  from g f have "generate_payload L command ident key vers sq ts dat = Inr frame"
    by simp
  with d' dr e show ?thesis
    by blast
qed

lemma message_not_empty:
  "prefix (encode ''{'') (json_message L json_data) \<Longrightarrow> json_text L json_data \<noteq> []"
  by (auto simp: json_message_def encode_def)

lemma char_of_byte: "char_of (unat (of_char c :: byte)) = c"
proof -
  have "unat (of_char c :: byte) = unat (of_nat (of_char c) :: byte)"
    by (simp only: of_nat_of_char)
  also have "\<dots> = of_char c mod 256"
    by (simp add: unat_of_nat)
  also have "\<dots> = of_char c"
    by (rule of_char_mod_256)
  finally show ?thesis
    by simp
qed

lemma example_utf8_round:
  "\<forall>c \<in> set s. (of_char c :: byte) < 128 \<Longrightarrow> utf8_decode example_lib (encode s) = Inr s"
  by (simp add: example_lib_def example_utf8_decode_def encode_def comp_def char_of_byte)

lemma example_query_bytes:
  "example_query_message = encode ''{\"gwId\":\"bf0123456789abcdefgh\",\"devId\":\"bf0123456789abcdefgh\",\"uid\":\"bf0123456789abcdefgh\",\"t\":\"1600000000\"}''"
  by (simp add: example_query_message_def json_message_def query_text)

lemma example_control_bytes:
  "example_control_message = encode ''{\"devId\":\"bf0123456789abcdefgh\",\"uid\":\"bf0123456789abcdefgh\",\"t\":\"1600000000\",\"dps\":{\"1\":true}}''"
  by (simp add: example_control_message_def json_message_def control_text)

lemma example_decodes:
  "utf8_decode example_lib example_query_message
     = Inr (json_text example_lib (fill_template query_template example_id ''1600000000'' None))"
  "utf8_decode example_lib example_control_message
     = Inr (json_text example_lib
              (fill_template control_template example_id ''1600000000'' (Some [(''1'', JBool True)])))"
  unfolding example_query_message_def example_control_message_def json_message_def
  by (rule example_utf8_round, simp add: query_text control_text)+

lemma example_first_byte:
  "hd example_query_message = 0x7B" "example_query_message \<noteq> []"
  "prefix (encode ''{'') example_query_message"
  by (simp_all add: example_query_bytes encode_def)

lemma not_prefix_not:
  "m \<noteq> [] \<Longrightarrow> hd m = 0x7B \<Longrightarrow>
   \<not> prefix PROTOCOL_VERSION_BYTES_31 (map (\<lambda>b. NOT b) (pad m))
   \<and> \<not> prefix PROTOCOL_VERSION_BYTES_33 (map (\<lambda>b. NOT b) (pad m))"
  by (cases m) (simp_all add: pad_def Let_def version_bytes)

lemma example_loads_query:
  "json_loads example_lib
     (json_text example_lib (fill_template query_template example_id ''1600000000'' None))
   = Inr (JDict (fill_template query_template example_id ''1600000000'' None))"
  unfolding query_text
  by (simp add: example_lib_def example_loads_def fill_template_def has_key_def query_template_def
      example_id_def Let_def)

lemma example_space_messages:
  "json_message example_lib
     (fill_template control_template example_id ''1600000000'' (Some [(''1'', JStr ''a b'')]))
   = json_message example_lib
       (fill_template control_template example_id ''1600000000'' (Some [(''1'', JStr ''ab'')]))"
  "length (json_message example_lib
     (fill_template control_template example_id ''1600000000'' (Some [(''1'', JStr ''ab'')]))) = 95"
  by (simp_all add: json_message_def json_text_def example_lib_def fill_template_def has_key_def
      control_template_def example_id_def Let_def encode_def)

text \<open>
  As claim C2 states it, unpacking the frame that the encoder produces and decoding its
  payload gives back the original JSON payload, for every payload. \<open>unpack_message\<close>
  reads the layout of a response, with five header words: applied to the request frame
  of a data-point query under version "3.1" it drops the first four bytes of the JSON,
  and the decoder rejects the rest. And the encoder removes every space of the JSON
  text, those inside strings too: the control payloads with the values \<open>a b\<close> and \<open>ab\<close>
  are encoded to one and the same frame, from which no decoder recovers both.
\<close>

theorem frame_round_trip_counterexample:
  "json_text example_lib (fill_template query_template example_id ''1600000000'' None)
     = ''{\"gwId\":\"bf0123456789abcdefgh\",\"devId\":\"bf0123456789abcdefgh\",\"uid\":\"bf0123456789abcdefgh\",\"t\":\"1600000000\"}''
   \<and> map_sum id length
        (generate_payload example_lib DP_QUERY example_id example_key ''3.1'' 1 ''1600000000'' None)
       = Inr 132
   \<and> and_then
        (generate_payload example_lib DP_QUERY example_id example_key ''3.1'' 1 ''1600000000'' None)
        (\<lambda>frame. data_received example_lib frame example_key ''3.1'')
       = Inl (ValueError ''Unexpected payload'')
   \<and> [(''1'', JStr ''a b'')] \<noteq> [(''1'', JStr ''ab'')]
   \<and> (\<exists>frame.
         generate_payload example_lib CONTROL example_id example_key ''3.3'' 1 ''1600000000''
             (Some [(''1'', JStr ''a b'')]) = Inr frame
         \<and> generate_payload example_lib CONTROL example_id example_key ''3.3'' 1 ''1600000000''
             (Some [(''1'', JStr ''ab'')]) = Inr frame)"
proof -
  have g: "generate_payload example_lib DP_QUERY example_id example_key ''3.1'' 1 ''1600000000'' None
      = pack_message (TuyaRequest 1 10 example_query_message)"
    by (subst generate_payload_unfold [OF example_entries(2)])
      (simp_all add: int_base16_table example_query_message_def)
  have l: "int (length example_query_message) + 8 < 2 ^ 32"
    by (simp add: example_lengths)
  from request_frame_facts [of 1 10 example_query_message "[0, 0, 0, 0]"] l
  obtain frame resp where f: "pack_message (TuyaRequest 1 10 example_query_message) = Inr frame"
    and sl: "drop 16 (take (length frame - 8) frame) = example_query_message"
    and u: "unpack_message frame = Inr resp" "payload' resp = drop 4 example_query_message"
    by auto
  from pack_message_ok [of 1 10 example_query_message] l f
  have len: "length frame = 132"
    by (auto simp: example_lengths)
  have d: "decode_payload example_lib (drop 4 example_query_message) example_key ''3.1''
      = Inl (ValueError ''Unexpected payload'')"
    by (simp add: example_query_bytes encode_def decode_payload_def version_bytes Let_def)
  let ?ma = "json_message example_lib
     (fill_template control_template example_id ''1600000000'' (Some [(''1'', JStr ''a b'')]))"
  let ?mb = "json_message example_lib
     (fill_template control_template example_id ''1600000000'' (Some [(''1'', JStr ''ab'')]))"
  let ?p = "PROTOCOL_33_HEADER @ map (\<lambda>b. NOT b) (pad ?mb)"
  have gb: "generate_payload example_lib CONTROL example_id example_key ''3.3'' 1 ''1600000000''
             (Some [(''1'', JStr ''ab'')]) = pack_message (TuyaRequest 1 7 ?p)"
    by (subst generate_payload_unfold [OF example_entries(1)])
      (simp_all add: int_base16_table AESCipher_encrypt_def example_cipher_pad command_defs)
  have ga: "generate_payload example_lib CONTROL example_id example_key ''3.3'' 1 ''1600000000''
             (Some [(''1'', JStr ''a b'')]) = pack_message (TuyaRequest 1 7 ?p)"
    by (subst generate_payload_unfold [OF example_entries(1)])
      (simp_all add: int_base16_table AESCipher_encrypt_def example_cipher_pad command_defs
        example_space_messages(1))
  have lp: "int (length ?p) + 8 < 2 ^ 32"
    using pad_length(3) [of ?mb] by (simp add: header_33(2) example_space_messages(2))
  from pack_message_ok [of 1 7 ?p] lp obtain frame2
    where f2: "pack_message (TuyaRequest 1 7 ?p) = Inr frame2"
    by auto
  have c: "\<exists>frame.
         generate_payload example_lib CONTROL example_id example_key ''3.3'' 1 ''1600000000''
             (Some [(''1'', JStr ''a b'')]) = Inr frame
         \<and> generate_payload example_lib CONTROL example_id example_key ''3.3'' 1 ''1600000000''
             (Some [(''1'', JStr ''ab'')]) = Inr frame"
    unfolding ga gb f2 by blast
  have q: "map_sum id length
        (generate_payload example_lib DP_QUERY example_id example_key ''3.1'' 1 ''1600000000'' None)
       = Inr 132"
    "and_then
        (generate_payload example_lib DP_QUERY example_id example_key ''3.1'' 1 ''1600000000'' None)
        (\<lambda>frame. data_received example_lib frame example_key ''3.1'')
       = Inl (ValueError ''Unexpected payload'')"
    by (simp_all add: g f len data_received_def u d)
  have ne: "[(''1'', JStr ''a b'')] \<noteq> [(''1'', JStr ''ab'')]"
    by simp
  from query_text q ne c show ?thesis
    by (intro conjI)
qed

text \<open>
  Claim C2, amended. For every command of the table other than \<open>CONTROL_NEW\<close>, a
  sequence number that fits in 32 bits and a JSON object whose text with every space
  removed begins with a brace, is given back by the UTF-8 decoder from its encoding and
  is parsed by \<open>json.loads\<close> to the object itself (which fails for an object with a space
  inside a key or a string), the encoder returns a frame, and decoding recovers the
  object in two cases: under version "3.3", when AES decryption under the key inverts
  the encryption of the padded message and, for the two commands sent without header,
  the ciphertext does not begin with the bytes "3.1" or "3.3"; and under any other
  version for the data-point query and the refresh request. Recovering means: the
  decoder applied to the bytes of the frame between its 16-byte header and its 8-byte
  footer returns the text, and \<open>data_received\<close> applied to the frame with a 4-byte return
  code inserted after the header, the layout of a response, returns the object.
  \<open>unpack_message\<close> applied to the request frame itself yields the payload without its
  first four bytes.
\<close>

theorem payload_round_trip:
  assumes t: "map_of TUYA_COMMANDS_default command = Some (hb, tmpl)"
    and n: "command \<noteq> CONTROL_NEW"
    and r: "0 \<le> sq" "sq < 2 ^ 32"
    and rcb: "length rcb = 4"
    and b: "prefix (encode ''{'') (json_message L (fill_template tmpl ident ts dat))"
    and u: "utf8_decode L (json_message L (fill_template tmpl ident ts dat))
              = Inr (json_text L (fill_template tmpl ident ts dat))"
    and j: "json_loads L (json_text L (fill_template tmpl ident ts dat))
              = Inr (JDict (fill_template tmpl ident ts dat))"
  shows "(vers = ''3.3''
          \<and> aes_ecb_encrypt L (encode key) (pad (json_message L (fill_template tmpl ident ts dat)))
              = Inr crypted
          \<and> aes_ecb_decrypt L (encode key) crypted
              = Inr (pad (json_message L (fill_template tmpl ident ts dat)))
          \<and> crypted \<noteq> [] \<and> int (length crypted) + 23 < 2 ^ 32
          \<and> (command = DP_QUERY \<or> command = UPDATEDPS \<longrightarrow>
                \<not> prefix PROTOCOL_VERSION_BYTES_31 crypted
                \<and> \<not> prefix PROTOCOL_VERSION_BYTES_33 crypted) \<longrightarrow>
          (\<exists>frame. generate_payload L command ident key vers sq ts dat = Inr frame
             \<and> decode_payload L (drop 16 (take (length frame - 8) frame)) key vers
                 = Inr (json_text L (fill_template tmpl ident ts dat))
             \<and> data_received L (take 16 frame @ rcb @ drop 16 frame) key vers
                 = Inr (Some (JDict (fill_template tmpl ident ts dat)))
             \<and> (\<exists>resp. unpack_message frame = Inr resp
                   \<and> payload' resp = drop 4 (drop 16 (take (length frame - 8) frame)))))
       \<and> (vers \<noteq> ''3.3'' \<and> (command = DP_QUERY \<or> command = UPDATEDPS)
          \<and> int (length (json_message L (fill_template tmpl ident ts dat))) + 8 < 2 ^ 32 \<longrightarrow>
          (\<exists>frame. generate_payload L command ident key vers sq ts dat = Inr frame
             \<and> decode_payload L (drop 16 (take (length frame - 8) frame)) key vers
                 = Inr (json_text L (fill_template tmpl ident ts dat))
             \<and> data_received L (take 16 frame @ rcb @ drop 16 frame) key vers
                 = Inr (Some (JDict (fill_template tmpl ident ts dat)))
             \<and> (\<exists>resp. unpack_message frame = Inr resp
                   \<and> payload' resp = drop 4 (drop 16 (take (length frame - 8) frame)))))"
proof (intro conjI impI)
  let ?m = "json_message L (fill_template tmpl ident ts dat)"
  let ?text = "json_text L (fill_template tmpl ident ts dat)"
  let ?obj = "JDict (fill_template tmpl ident ts dat)"
  from command_code [OF t] obtain c where c: "int_base16 hb = Inr c" "0 \<le> c" "c < 2 ^ 32"
    by blast
  from command_table_cases [OF t] n have hb: "hb \<noteq> ''0d''"
    by (auto simp: command_defs)
  note unf = generate_payload_unfold [OF t hb, of L ident key vers sq ts dat]
  note ne = message_not_empty [OF b]
  {
    assume a: "vers = ''3.3''
          \<and> aes_ecb_encrypt L (encode key) (pad ?m) = Inr crypted
          \<and> aes_ecb_decrypt L (encode key) crypted = Inr (pad ?m)
          \<and> crypted \<noteq> [] \<and> int (length crypted) + 23 < 2 ^ 32
          \<and> (command = DP_QUERY \<or> command = UPDATEDPS \<longrightarrow>
                \<not> prefix PROTOCOL_VERSION_BYTES_31 crypted
                \<and> \<not> prefix PROTOCOL_VERSION_BYTES_33 crypted)"
    let ?p = "if command = DP_QUERY \<or> command = UPDATEDPS then crypted
              else PROTOCOL_33_HEADER @ crypted"
    from a have g: "generate_payload L command ident key vers sq ts dat
        = pack_message (TuyaRequest sq c ?p)"
      unfolding unf by (simp add: AESCipher_encrypt_def c)
    from a have l: "int (length ?p) + 8 < 2 ^ 32"
      by (simp add: header_33(2))
    from a u have d: "decode_payload L ?p key vers = Inr ?text"
      by (auto simp: decode_payload_header_33 decode_payload_bare_33)
    from round_trip_of_payload [OF g r c(2,3) l rcb d ne j]
    show "\<exists>frame. generate_payload L command ident key vers sq ts dat = Inr frame
             \<and> decode_payload L (drop 16 (take (length frame - 8) frame)) key vers = Inr ?text
             \<and> data_received L (take 16 frame @ rcb @ drop 16 frame) key vers = Inr (Some ?obj)
             \<and> (\<exists>resp. unpack_message frame = Inr resp
                   \<and> payload' resp = drop 4 (drop 16 (take (length frame - 8) frame)))" .
  }
  {
    assume a: "vers \<noteq> ''3.3'' \<and> (command = DP_QUERY \<or> command = UPDATEDPS)
          \<and> int (length ?m) + 8 < 2 ^ 32"
    from a have g: "generate_payload L command ident key vers sq ts dat
        = pack_message (TuyaRequest sq c ?m)"
      unfolding unf by (auto simp: c)
    from a have l: "int (length ?m) + 8 < 2 ^ 32"
      by simp
    from a b u have d: "decode_payload L ?m key vers = Inr ?text"
      by (simp add: decode_payload_plain)
    from round_trip_of_payload [OF g r c(2,3) l rcb d ne j]
    show "\<exists>frame. generate_payload L command ident key vers sq ts dat = Inr frame
             \<and> decode_payload L (drop 16 (take (length frame - 8) frame)) key vers = Inr ?text
             \<and> data_received L (take 16 frame @ rcb @ drop 16 frame) key vers = Inr (Some ?obj)
             \<and> (\<exists>resp. unpack_message frame = Inr resp
                   \<and> payload' resp = drop 4 (drop 16 (take (length frame - 8) frame)))" .
  }
qed

theorem payload_round_trip_witness:
  "map_of TUYA_COMMANDS_default DP_QUERY = Some (''0a'', query_template)
   \<and> DP_QUERY \<noteq> CONTROL_NEW
   \<and> prefix (encode ''{'') example_query_message
   \<and> utf8_decode example_lib example_query_message
       = Inr (json_text example_lib (fill_template query_template example_id ''1600000000'' None))
   \<and> json_loads example_lib
         (json_text example_lib (fill_template query_template example_id ''1600000000'' None))
       = Inr (JDict (fill_template query_template example_id ''1600000000'' None))
   \<and> aes_ecb_encrypt example_lib (encode example_key) (pad example_query_message)
       = Inr (map (\<lambda>b. NOT b) (pad example_query_message))
   \<and> aes_ecb_decrypt example_lib (encode example_key) (map (\<lambda>b. NOT b) (pad example_query_message))
       = Inr (pad example_query_message)
   \<and> \<not> prefix PROTOCOL_VERSION_BYTES_31 (map (\<lambda>b. NOT b) (pad example_query_message))
   \<and> \<not> prefix PROTOCOL_VERSION_BYTES_33 (map (\<lambda>b. NOT b) (pad example_query_message))
   \<and> (\<exists>frame. generate_payload example_lib DP_QUERY example_id example_key ''3.3'' 1
                 ''1600000000'' None = Inr frame
          \<and> decode_payload example_lib (drop 16 (take (length frame - 8) frame)) example_key ''3.3''
              = Inr (json_text example_lib (fill_template query_template example_id ''1600000000'' None))
          \<and> data_received example_lib (take 16 frame @ [0, 0, 0, 0] @ drop 16 frame)
                example_key ''3.3''
              = Inr (Some (JDict (fill_template query_template example_id ''1600000000'' None))))
   \<and> (\<exists>frame. generate_payload example_lib DP_QUERY example_id example_key ''3.1'' 1
                 ''1600000000'' None = Inr frame
          \<and> data_received example_lib (take 16 frame @ [0, 0, 0, 0] @ drop 16 frame)
                example_key ''3.1''
              = Inr (Some (JDict (fill_template query_template example_id ''1600000000'' None)))
          \<and> (\<exists>resp. unpack_message frame = Inr resp
                \<and> payload' resp = drop 4 (drop 16 (take (length frame - 8) frame))))"
proof -
  have n: "DP_QUERY \<noteq> CONTROL_NEW"
    by (simp add: command_defs)
  have r: "(0::int) \<le> 1" "(1::int) < 2 ^ 32" "length [0, 0, 0, 0 :: byte] = 4"
    by simp_all
  have v: "''3.1'' \<noteq> ''3.3''"
    by simp
  let ?cq = "map (\<lambda>b. NOT b) (pad example_query_message)"
  have ne: "?cq \<noteq> []"
    using pad_length(2) [of example_query_message] by auto
  have lq: "int (length ?cq) + 23 < 2 ^ 32"
    using pad_length(3) [of example_query_message] by (simp add: example_lengths)
  have lm: "int (length example_query_message) + 8 < 2 ^ 32"
    by (simp add: example_lengths)
  note np = not_prefix_not [OF example_first_byte(2,1)]
  note Q = payload_round_trip [OF example_entries(2) n r,
      where L = example_lib and ident = example_id and ts = "''1600000000''" and dat = None
        and key = example_key,
      folded example_query_message_def, OF example_first_byte(3) example_decodes(1)
        example_loads_query]
  have a: "\<exists>frame. generate_payload example_lib DP_QUERY example_id example_key ''3.3'' 1
                 ''1600000000'' None = Inr frame
          \<and> decode_payload example_lib (drop 16 (take (length frame - 8) frame)) example_key ''3.3''
              = Inr (json_text example_lib (fill_template query_template example_id ''1600000000'' None))
          \<and> data_received example_lib (take 16 frame @ [0, 0, 0, 0] @ drop 16 frame)
                example_key ''3.3''
              = Inr (Some (JDict (fill_template query_template example_id ''1600000000'' None)))"
    using Q [where vers = "''3.3''" and crypted = ?cq, THEN conjunct1]
      example_cipher_pad [of example_query_message] ne lq np
    by blast
  have b: "\<exists>frame. generate_payload example_lib DP_QUERY example_id example_key ''3.1'' 1
                 ''1600000000'' None = Inr frame
          \<and> data_received example_lib (take 16 frame @ [0, 0, 0, 0] @ drop 16 frame)
                example_key ''3.1''
              = Inr (Some (JDict (fill_template query_template example_id ''1600000000'' None)))
          \<and> (\<exists>resp. unpack_message frame = Inr resp
                \<and> payload' resp = drop 4 (drop 16 (take (length frame - 8) frame)))"
    using Q [where vers = "''3.1''", THEN conjunct2] v lm
    by blast
  from example_entries(2) n example_first_byte(3) example_decodes(1) example_loads_query
    example_cipher_pad [of example_query_message] np a b
  show ?thesis
    by (intro conjI) blast+
qed

end
